theory Spec2Isabelle
  imports Complex_Main
begin

section \<open>Engine value types\<close>

text \<open>
  The plugin works on the host engine's vectors, rotators and transforms. Their
  components are single- or double-precision floats in the engine; here they are
  real numbers, so the statements below are about the exact arithmetic that the
  floating-point code approximates. The one exception is the uniform scale, whose
  single-precision operations are rounded as the code rounds them.
\<close>

datatype FVector2D = FVector2D (X2: real) (Y2: real)

datatype FVector = FVector (X: real) (Y: real) (Z: real)

datatype FRotator = FRotator (Pitch: real) (Yaw: real) (Roll: real)

text \<open>
  \<open>FTransform\<close>: rotation, translation and scale. The engine keeps the rotation as
  a quaternion and converts to and from a rotator; the conversion is taken as exact,
  so the rotation is held as a rotator.
\<close>

datatype FTransform = FTransform (GetRotation: FRotator) (GetLocation: FVector) (GetScale3D: FVector)

instantiation FVector2D :: ab_group_add
begin

definition zero_FVector2D :: FVector2D where
  "zero_FVector2D = FVector2D 0 0"

definition plus_FVector2D :: "FVector2D \<Rightarrow> FVector2D \<Rightarrow> FVector2D" where
  "plus_FVector2D u v = FVector2D (X2 u + X2 v) (Y2 u + Y2 v)"

definition minus_FVector2D :: "FVector2D \<Rightarrow> FVector2D \<Rightarrow> FVector2D" where
  "minus_FVector2D u v = FVector2D (X2 u - X2 v) (Y2 u - Y2 v)"

definition uminus_FVector2D :: "FVector2D \<Rightarrow> FVector2D" where
  "uminus_FVector2D u = FVector2D (- X2 u) (- Y2 u)"

instance
  by standard
    (simp_all add: zero_FVector2D_def plus_FVector2D_def minus_FVector2D_def
      uminus_FVector2D_def)

end

instantiation FVector :: ab_group_add
begin

definition zero_FVector :: FVector where
  "zero_FVector = FVector 0 0 0"

definition plus_FVector :: "FVector \<Rightarrow> FVector \<Rightarrow> FVector" where
  "plus_FVector u v = FVector (X u + X v) (Y u + Y v) (Z u + Z v)"

definition minus_FVector :: "FVector \<Rightarrow> FVector \<Rightarrow> FVector" where
  "minus_FVector u v = FVector (X u - X v) (Y u - Y v) (Z u - Z v)"

definition uminus_FVector :: "FVector \<Rightarrow> FVector" where
  "uminus_FVector u = FVector (- X u) (- Y u) (- Z u)"

instance
  by standard
    (simp_all add: zero_FVector_def plus_FVector_def minus_FVector_def uminus_FVector_def)

end

text \<open>\<open>FVector * float\<close>: every component times the factor.\<close>

definition scaleV :: "FVector \<Rightarrow> real \<Rightarrow> FVector" where
  "scaleV v k = FVector (X v * k) (Y v * k) (Z v * k)"

text \<open>\<open>FVector / int32\<close>, used for centroids.\<close>

definition divV :: "FVector \<Rightarrow> real \<Rightarrow> FVector" where
  "divV v k = FVector (X v / k) (Y v / k) (Z v / k)"

text \<open>\<open>FVector::ComponentMax\<close>: the componentwise maximum of two vectors.\<close>

definition ComponentMax :: "FVector \<Rightarrow> FVector \<Rightarrow> FVector" where
  "ComponentMax u v = FVector (max (X u) (X v)) (max (Y u) (Y v)) (max (Z u) (Z v))"

text \<open>
  The engine's tolerance constant \<open>KINDA_SMALL_NUMBER\<close> (\<open>1.e-4f\<close>), the default
  tolerance of both \<open>IsNearlyZero\<close> tests.
\<close>

definition KINDA_SMALL_NUMBER :: real where
  "KINDA_SMALL_NUMBER = 1 / 10000"

definition IsNearlyZero2D :: "FVector2D \<Rightarrow> bool" where
  "IsNearlyZero2D v \<longleftrightarrow> \<bar>X2 v\<bar> \<le> KINDA_SMALL_NUMBER \<and> \<bar>Y2 v\<bar> \<le> KINDA_SMALL_NUMBER"

definition IsNearlyZero :: "FVector \<Rightarrow> bool" where
  "IsNearlyZero v \<longleftrightarrow>
     \<bar>X v\<bar> \<le> KINDA_SMALL_NUMBER \<and> \<bar>Y v\<bar> \<le> KINDA_SMALL_NUMBER \<and> \<bar>Z v\<bar> \<le> KINDA_SMALL_NUMBER"

text \<open>
  \<open>FMath::GridSnap(Location, Grid)\<close> of the engine's math library:
  \<open>Grid == 0 ? Location : Floor((Location + Grid / 2) / Grid) * Grid\<close>.
\<close>

definition GridSnap :: "real \<Rightarrow> real \<Rightarrow> real" where
  "GridSnap location grid =
     (if grid = 0 then location else of_int \<lfloor>(location + grid / 2) / grid\<rfloor> * grid)"

subsection \<open>Single-precision arithmetic\<close>

text \<open>
  The uniform scale keeps its accumulated delta and its multiplier in 32-bit floats
  (\<open>float TotalScaleDelta\<close>, \<open>float RadialDelta\<close>, \<open>0.004f\<close>), and whether a
  drag returns to the scale it started from depends on their rounding. \<open>Float32\<close>
  rounds a real to the nearest binary32 value, ties to the even significand: 24
  significant bits, so a value of magnitude in \<open>[2^e, 2^(e+1))\<close> is rounded to a
  multiple of \<open>2^(e-23)\<close>, and to a multiple of \<open>2^-149\<close> below the normal range.
  Magnitudes from \<open>2^128\<close> on, which overflow to infinity, are outside the model.
  \<open>Float32Spacing n m\<close> finds the spacing for the magnitude \<open>m\<close> by doubling or
  halving it into \<open>[2^23, 2^24)\<close>, at most \<open>n\<close> times.
\<close>

definition RoundHalfEven :: "real \<Rightarrow> int" where
  "RoundHalfEven y =
     (let f = \<lfloor>y\<rfloor>
      in if y - of_int f < 1 / 2 then f
         else if 1 / 2 < y - of_int f then f + 1
         else if even f then f else f + 1)"

fun Float32Spacing :: "nat \<Rightarrow> real \<Rightarrow> real" where
  "Float32Spacing 0 m = 1"
| "Float32Spacing (Suc n) m =
     (if 2 ^ 24 \<le> m then 2 * Float32Spacing n (m / 2)
      else if m < 2 ^ 23 then Float32Spacing n (2 * m) / 2
      else 1)"

definition Float32 :: "real \<Rightarrow> real" where
  "Float32 x =
     (if x = 0 then 0
      else let u = max (Float32Spacing 300 \<bar>x\<bar>) (1 / 2 ^ 149)
           in of_int (RoundHalfEven (x / u)) * u)"

text \<open>\<open>FMath::GridSnap\<close> on floats: every operation rounds.\<close>

definition GridSnapFloat :: "real \<Rightarrow> real \<Rightarrow> real" where
  "GridSnapFloat location grid =
     (if grid = 0 then location
      else Float32
             (of_int \<lfloor>Float32 (Float32 (location + Float32 (grid / 2)) / grid)\<rfloor> * grid))"


section \<open>The host editor\<close>

text \<open>
  Objects are named by numbers. A selection holds objects; \<open>Cast<AActor>\<close> yields
  the actor when the object is one.
\<close>

type_synonym FName = string

definition NAME_None :: FName where
  "NAME_None = []"

datatype UObject = ActorObject nat | OtherObject nat

fun Cast_AActor :: "UObject \<Rightarrow> nat option" where
  "Cast_AActor (ActorObject a) = Some a"
| "Cast_AActor (OtherObject _) = None"

text \<open>
  What the plugin reads and writes of an actor. Actors are independent of each other
  (no attachment hierarchy), and the setters \<open>SetActorLocation\<close>,
  \<open>SetActorRotation\<close>, \<open>SetActorScale3D\<close> store their argument as it is.
  \<open>Modify\<close> and \<open>PostEditMove\<close> only notify the host and leave no trace here.
\<close>

record AActor =
  ActorLocation :: FVector
  ActorRotation :: FRotator
  ActorScale3D :: FVector
  FolderPath :: FName

definition GetActorTransform :: "AActor \<Rightarrow> FTransform" where
  "GetActorTransform a = FTransform (ActorRotation a) (ActorLocation a) (ActorScale3D a)"

definition SetActorTransform :: "FTransform \<Rightarrow> AActor \<Rightarrow> AActor" where
  "SetActorTransform t a =
     a\<lparr>ActorLocation := GetLocation t, ActorRotation := GetRotation t,
       ActorScale3D := GetScale3D t\<rparr>"

datatype ECollisionEnabled =
  NoCollision | QueryOnly | PhysicsOnly | QueryAndPhysics | ProbeOnly | QueryAndProbe

record FHitResult =
  HitComponent :: "nat option"
  ImpactPoint :: FVector
  ImpactNormal :: FVector

datatype EWidgetMode = WM_None | WM_Translate | WM_Rotate | WM_Scale

datatype ERotationGridMode = GridMode_DivisionsOf360 | GridMode_Common

record ULevelEditorViewportSettings =
  GridEnabled :: bool
  bUsePowerOf2SnapSize :: bool
  Pow2GridSizes :: "real list"
  DecimalGridSizes :: "real list"
  CurrentPosGridSize :: int
  RotGridEnabled :: bool
  CurrentRotGridSize :: int
  CurrentRotGridMode :: ERotationGridMode
  DivisionsOf360RotGridSizes :: "real list"
  CommonRotGridSizes :: "real list"
  SnapScaleEnabled :: bool

record SLevelViewport =
  HasKeyboardFocus :: bool
  HasFocusedDescendants :: bool

text \<open>
  The engine computations the plugin calls and whose code is the host's: camera
  geometry, component bounds, collision queries, quaternion rotation and the
  \<open>DUPLICATE\<close> command. Each is a function of what it reads.
  \<^item> \<open>HorizontalWorldDelta\<close>: the world-space delta that
    \<open>MoveSelectedActorsHorizontal\<close> derives from a mouse delta (movement plane,
    camera axes, distance, field of view, tilt correction, factor 0.4);
  \<^item> \<open>VerticalWorldDelta\<close>: the same for \<open>MoveSelectedActorsVertical\<close>;
  \<^item> \<open>MeshBottomOffset\<close>: the distance from an actor's origin to the bottom of
    its mesh, as the ground snap computes it from the component bounds;
  \<^item> \<open>LineTraceSingleByChannel actors start end ignoredActors ignoredComponents\<close>:
    the visibility trace;
  \<^item> \<open>AlignToSurface\<close>: the rotation built from the current rotation and the
    surface normal;
  \<^item> \<open>RotateVector\<close>: rotation of a vector about the Z axis by degrees.
\<close>

record engine =
  HorizontalWorldDelta :: "(nat \<Rightarrow> AActor) \<Rightarrow> UObject list \<Rightarrow> FVector2D \<Rightarrow> FVector"
  VerticalWorldDelta :: "(nat \<Rightarrow> AActor) \<Rightarrow> UObject list \<Rightarrow> real \<Rightarrow> FVector"
  MeshBottomOffset :: "(nat \<Rightarrow> AActor) \<Rightarrow> nat \<Rightarrow> real"
  GetCollisionEnabled :: "nat \<Rightarrow> ECollisionEnabled"
  GetAttachedActors :: "nat \<Rightarrow> nat list"
  LineTraceSingleByChannel ::
    "(nat \<Rightarrow> AActor) \<Rightarrow> FVector \<Rightarrow> FVector \<Rightarrow> nat list \<Rightarrow> nat list \<Rightarrow> FHitResult option"
  AlignToSurface :: "FRotator \<Rightarrow> FVector \<Rightarrow> FRotator"
  RotateVector :: "real \<Rightarrow> FVector \<Rightarrow> FVector"
  GetRootForActor :: "nat \<Rightarrow> nat option"
  ExecDuplicate ::
    "(nat \<Rightarrow> AActor) \<Rightarrow> UObject list \<Rightarrow> nat list option
       \<Rightarrow> (nat \<Rightarrow> AActor) \<times> UObject list option \<times> nat list option"

text \<open>
  The state of the host that the processors see.
  \<^item> \<open>GEditor\<close>: the editor singleton is there (the pointer is not null);
  \<^item> \<open>SelectedActors\<close>: the selection, \<open>None\<close> when \<open>GetSelectedActors\<close>
    returns null;
  \<^item> \<open>EditorWorld\<close>: the actors of the editor world in iteration order,
    \<open>None\<close> when there is no world;
  \<^item> \<open>Destroyed\<close>: actors whose weak pointers have gone stale;
  \<^item> \<open>ActiveLevelViewport\<close>: the first active level viewport, if any;
  \<^item> \<open>WidgetMode\<close>: the widget mode of the level editor's mode tools;
    \<open>ActiveViewportModeTools\<close>: the widget mode of the mode tools reached
    through \<open>GEditor->GetActiveViewport()\<close>, \<open>None\<close> when a pointer on the way
    is null;
  \<^item> \<open>Transactions\<close>: the description of every \<open>FScopedTransaction\<close> the
    plugin has constructed, oldest first; \<open>OpenTransactions\<close>: how many of them
    have not been destroyed yet;
  \<^item> \<open>Crashed\<close>: a null pointer has been dereferenced.
\<close>

record editor =
  GEditor :: bool
  PlaySessionInProgress :: bool
  SelectedActors :: "UObject list option"
  EditorWorld :: "nat list option"
  Actors :: "nat \<Rightarrow> AActor"
  Destroyed :: "nat set"
  ActiveLevelViewport :: "SLevelViewport option"
  LandscapeModeActive :: bool
  FoliageModeActive :: bool
  WidgetMode :: EWidgetMode
  ActiveViewportModeTools :: "EWidgetMode option"
  ViewportSettings :: "ULevelEditorViewportSettings option"
  ScaleGridSize :: real
  CursorPos :: FVector2D
  CursorShown :: bool
  Transactions :: "string list"
  OpenTransactions :: nat
  Crashed :: bool
  Engine :: engine

text \<open>Constructor and destructor of \<open>FScopedTransaction\<close>.\<close>

definition FScopedTransaction :: "string \<Rightarrow> 'a editor_scheme \<Rightarrow> 'a editor_scheme" where
  "FScopedTransaction description w =
     w\<lparr>Transactions := Transactions w @ [description],
       OpenTransactions := Suc (OpenTransactions w)\<rparr>"

definition FScopedTransaction_end :: "'a editor_scheme \<Rightarrow> 'a editor_scheme" where
  "FScopedTransaction_end w = w\<lparr>OpenTransactions := OpenTransactions w - 1\<rparr>"

datatype EKeys =
  EKeys_Q | EKeys_E | EKeys_R | EKeys_G | EKeys_One | EKeys_Two | EKeys_Three
  | EKeys_B | EKeys_C | EKeys_T | EKeys_D | EKeys_V | EKeys_LeftMouseButton | EKeys_Other

record FKeyEvent =
  GetKey :: EKeys
  IsControlDown :: bool
  IsAltDown :: bool
  IsShiftDown :: bool

record FPointerEvent =
  GetEffectingButton :: EKeys
  PointerIsShiftDown :: bool
  GetWheelDelta :: real

section \<open>The shortcut processor\<close>

text \<open>
  \<open>FLevelEditorShortcutsProcessor\<close>: its member variables, on top of the host
  state it runs in. \<open>CachedCursor\<close> tells whether the cached cursor pointer is
  valid; \<open>DragTransaction\<close> holds the description of the open drag transaction,
  \<open>None\<close> when the unique pointer is empty. The members \<open>DragStartWorldPos\<close>
  and \<open>SelectionStartPivot\<close> are never read or written and are left out.
\<close>

record shortcuts = editor +
  bQKeyDown :: bool
  bQScrolledWhileDown :: bool
  bEKeyDown :: bool
  bRKeyDown :: bool
  bGKeyDown :: bool
  bGScrolledWhileDown :: bool
  LastMousePosition :: FVector2D
  bTemporarilyDisabledRotSnap :: bool
  bCursorHidden :: bool
  DragStartCursorPos :: FVector2D
  CachedCursor :: bool
  bDragInitialized :: bool
  AccumulatedMovement :: FVector
  TotalScaleDelta :: real
  ScaleDragInitialScales :: "(nat \<times> FVector) list"
  DragTransaction :: "string option"

definition EndDragTransaction :: "shortcuts \<Rightarrow> shortcuts" where
  "EndDragTransaction w =
     (let w1 = (if DragTransaction w \<noteq> None
                then (FScopedTransaction_end w)\<lparr>DragTransaction := None\<rparr> else w)
      in w1\<lparr>bDragInitialized := False, AccumulatedMovement := 0, TotalScaleDelta := 0,
            ScaleDragInitialScales := []\<rparr>)"

definition SetCursorHidden :: "bool \<Rightarrow> shortcuts \<Rightarrow> shortcuts" where
  "SetCursorHidden bHide w =
     (if bHide = bCursorHidden w then w
      else let w1 = w\<lparr>bCursorHidden := bHide\<rparr>
           in if CachedCursor w1 then w1\<lparr>CursorShown := \<not> bHide\<rparr> else w1)"

definition EnsureDragTransaction :: "string \<Rightarrow> shortcuts \<Rightarrow> shortcuts" where
  "EnsureDragTransaction description w =
     (if DragTransaction w = None
      then (FScopedTransaction description w)\<lparr>DragTransaction := Some description\<rparr>
      else w)"

text \<open>\<open>GetActiveViewportClient\<close> returns a client exactly when there is an active viewport.\<close>

definition GetActiveViewportClient :: "'a editor_scheme \<Rightarrow> bool" where
  "GetActiveViewportClient w \<longleftrightarrow> ActiveLevelViewport w \<noteq> None"

definition IsLevelEditorViewportFocused :: "'a editor_scheme \<Rightarrow> bool" where
  "IsLevelEditorViewportFocused w =
     (case ActiveLevelViewport w of
        Some v \<Rightarrow> HasKeyboardFocus v \<or> HasFocusedDescendants v
      | None \<Rightarrow> False)"

definition SetWidgetModeOnActiveViewport :: "EWidgetMode \<Rightarrow> shortcuts \<Rightarrow> bool \<times> shortcuts" where
  "SetWidgetModeOnActiveViewport Mode w =
     (if IsLevelEditorViewportFocused w then (True, w\<lparr>WidgetMode := Mode\<rparr>)
      else if GEditor w \<and> ActiveViewportModeTools w \<noteq> None
           then (True, w\<lparr>ActiveViewportModeTools := Some Mode\<rparr>)
      else (False, w))"

text \<open>\<open>TArray::IsValidIndex\<close> and the indexed read it guards.\<close>

definition IsValidIndex :: "'a list \<Rightarrow> int \<Rightarrow> bool" where
  "IsValidIndex xs i \<longleftrightarrow> 0 \<le> i \<and> i < int (length xs)"

definition GetGridSnapSize :: "'a editor_scheme \<Rightarrow> real" where
  "GetGridSnapSize w =
     (case ViewportSettings w of
        None \<Rightarrow> 0
      | Some s \<Rightarrow>
          if \<not> GridEnabled s then 0
          else let GridSizes = (if bUsePowerOf2SnapSize s then Pow2GridSizes s
                                else DecimalGridSizes s);
                   CurrentIndex = CurrentPosGridSize s
               in if IsValidIndex GridSizes CurrentIndex then GridSizes ! nat CurrentIndex
                  else 0)"

subsection \<open>Moving the selection\<close>

text \<open>
  The snapping of one axis: when the accumulated movement reaches the grid size, the
  snapped part is emitted and taken off the accumulator. The result is the emitted
  part and what stays accumulated.
\<close>

definition SnapAxis :: "real \<Rightarrow> real \<Rightarrow> real \<times> real" where
  "SnapAxis SnapSize acc =
     (if \<bar>acc\<bar> \<ge> SnapSize
      then (GridSnap acc SnapSize, acc - GridSnap acc SnapSize)
      else (0, acc))"

text \<open>The loop that adds \<open>ActualDelta\<close> to the location of every selected actor.\<close>

fun AddActorLocation :: "FVector \<Rightarrow> UObject list \<Rightarrow> (nat \<Rightarrow> AActor) \<Rightarrow> (nat \<Rightarrow> AActor)" where
  "AddActorLocation ActualDelta [] actors = actors"
| "AddActorLocation ActualDelta (obj # sel) actors =
     (case Cast_AActor obj of
        Some a \<Rightarrow>
          AddActorLocation ActualDelta sel
            (actors(a := (actors a)\<lparr>ActorLocation := ActorLocation (actors a) + ActualDelta\<rparr>))
      | None \<Rightarrow> AddActorLocation ActualDelta sel actors)"

text \<open>
  The second half of \<open>MoveSelectedActorsHorizontal\<close> and of
  \<open>MoveSelectedActorsVertical\<close>, which is the same code in both: accumulate the
  world delta, snap each axis when grid snapping is on, return early when the
  emitted delta is nearly zero, and move the actors.
\<close>

definition AccumulateAndMove :: "FVector \<Rightarrow> UObject list \<Rightarrow> shortcuts \<Rightarrow> shortcuts" where
  "AccumulateAndMove WorldDelta sel w =
     (let acc = AccumulatedMovement w + WorldDelta;
          SnapSize = GetGridSnapSize w
      in if SnapSize > 0
         then let sx = SnapAxis SnapSize (X acc);
                  sy = SnapAxis SnapSize (Y acc);
                  sz = SnapAxis SnapSize (Z acc);
                  ActualDelta = FVector (fst sx) (fst sy) (fst sz);
                  w1 = w\<lparr>AccumulatedMovement := FVector (snd sx) (snd sy) (snd sz)\<rparr>
              in if IsNearlyZero ActualDelta then w1
                 else w1\<lparr>Actors := AddActorLocation ActualDelta sel (Actors w1)\<rparr>
         else w\<lparr>AccumulatedMovement := 0, Actors := AddActorLocation acc sel (Actors w)\<rparr>)"

definition MoveSelectedActorsHorizontal :: "FVector2D \<Rightarrow> shortcuts \<Rightarrow> shortcuts" where
  "MoveSelectedActorsHorizontal MouseDelta w =
     (if \<not> GEditor w then w
      else case SelectedActors w of
        None \<Rightarrow> w
      | Some sel \<Rightarrow>
          if sel = [] then w
          else if \<not> GetActiveViewportClient w then w
          else let w1 = (if \<not> bDragInitialized w
                         then EnsureDragTransaction ''Move Horizontal''
                                (w\<lparr>bDragInitialized := True\<rparr>)
                         else w);
                   WorldDelta = HorizontalWorldDelta (Engine w1) (Actors w1) sel MouseDelta
               in AccumulateAndMove WorldDelta sel w1)"

definition MoveSelectedActorsVertical :: "real \<Rightarrow> shortcuts \<Rightarrow> shortcuts" where
  "MoveSelectedActorsVertical MouseDeltaY w =
     (if \<not> GEditor w then w
      else case SelectedActors w of
        None \<Rightarrow> w
      | Some sel \<Rightarrow>
          if sel = [] then w
          else if \<not> GetActiveViewportClient w then w
          else let w1 = (if \<not> bDragInitialized w
                         then EnsureDragTransaction ''Move Vertical''
                                (w\<lparr>bDragInitialized := True\<rparr>)
                         else w);
                   Delta = VerticalWorldDelta (Engine w1) (Actors w1) sel MouseDeltaY
               in AccumulateAndMove Delta sel w1)"

subsection \<open>Scaling the selection\<close>

text \<open>The snapshot loop: every selected actor with its scale at that moment.\<close>

fun InitialScales :: "UObject list \<Rightarrow> (nat \<Rightarrow> AActor) \<Rightarrow> (nat \<times> FVector) list" where
  "InitialScales [] actors = []"
| "InitialScales (obj # sel) actors =
     (case Cast_AActor obj of
        Some a \<Rightarrow> (a, ActorScale3D (actors a)) # InitialScales sel actors
      | None \<Rightarrow> InitialScales sel actors)"

text \<open>
  The loop over the snapshot: a stale weak pointer is skipped, every other actor gets
  its snapshot scale times the multiplier, no component below \<open>0.001f\<close>. The
  components of a vector are double precision and are kept exact, as everywhere else;
  times the multiplier 1 the product is the snapshot scale in any precision.
\<close>

fun ApplyScaleMultiplier ::
  "real \<Rightarrow> nat set \<Rightarrow> (nat \<times> FVector) list \<Rightarrow> (nat \<Rightarrow> AActor) \<Rightarrow> (nat \<Rightarrow> AActor)" where
  "ApplyScaleMultiplier ScaleMultiplier stale [] actors = actors"
| "ApplyScaleMultiplier ScaleMultiplier stale ((Key, Value) # rest) actors =
     (if Key \<in> stale then ApplyScaleMultiplier ScaleMultiplier stale rest actors
      else let NewScale = ComponentMax (scaleV Value ScaleMultiplier)
                            (FVector (Float32 (1 / 1000)) (Float32 (1 / 1000))
                               (Float32 (1 / 1000)))
           in ApplyScaleMultiplier ScaleMultiplier stale rest
                (actors(Key := (actors Key)\<lparr>ActorScale3D := NewScale\<rparr>)))"

text \<open>
  The multiplier of a frame from the accumulated scale delta, in single precision:
  \<open>Max(1.0f + TotalScaleDelta, 0.01f)\<close>, snapped to the scale grid (no lower than one
  grid step) when scale snapping is on.
\<close>

definition ScaleMultiplierOf :: "'a editor_scheme \<Rightarrow> real \<Rightarrow> real" where
  "ScaleMultiplierOf w NewTotal =
     (let Multiplier = max (Float32 (1 + NewTotal)) (Float32 (1 / 100));
          bSnapScale = (case ViewportSettings w of
                          Some s \<Rightarrow> SnapScaleEnabled s | None \<Rightarrow> False)
      in if bSnapScale \<and> ScaleGridSize w > 0
         then let Snapped = GridSnapFloat Multiplier (ScaleGridSize w)
              in if Snapped < ScaleGridSize w then ScaleGridSize w else Snapped
         else Multiplier)"

definition ScaleSelectedActorsUniform :: "FVector2D \<Rightarrow> shortcuts \<Rightarrow> shortcuts" where
  "ScaleSelectedActorsUniform MouseDelta w =
     (if \<not> GEditor w then w
      else case SelectedActors w of
        None \<Rightarrow> w
      | Some sel \<Rightarrow>
          if sel = [] then w
          else let w1 = (if \<not> bDragInitialized w
                         then (EnsureDragTransaction ''Scale Uniform''
                                 (w\<lparr>bDragInitialized := True\<rparr>))
                              \<lparr>ScaleDragInitialScales := InitialScales sel (Actors w)\<rparr>
                         else w);
                   RadialDelta = Float32 (X2 MouseDelta - Y2 MouseDelta);
                   Sensitivity = Float32 (4 / 1000);
                   NewTotal = Float32 (TotalScaleDelta w1 + Float32 (RadialDelta * Sensitivity));
                   ScaleMultiplier = ScaleMultiplierOf w1 NewTotal
               in w1\<lparr>TotalScaleDelta := NewTotal,
                     Actors := ApplyScaleMultiplier ScaleMultiplier (Destroyed w1)
                                 (ScaleDragInitialScales w1) (Actors w1)\<rparr>)"

subsection \<open>Rotating the selection, grid settings\<close>

fun ActorsOf :: "UObject list \<Rightarrow> nat list" where
  "ActorsOf [] = []"
| "ActorsOf (obj # sel) =
     (case Cast_AActor obj of Some a \<Rightarrow> a # ActorsOf sel | None \<Rightarrow> ActorsOf sel)"

text \<open>The group root of the first selected actor that has one.\<close>

fun FirstGroupRoot :: "(nat \<Rightarrow> nat option) \<Rightarrow> nat list \<Rightarrow> nat option" where
  "FirstGroupRoot groupOf [] = None"
| "FirstGroupRoot groupOf (a # rest) =
     (case groupOf a of Some g \<Rightarrow> Some g | None \<Rightarrow> FirstGroupRoot groupOf rest)"

fun RotateActors ::
  "(real \<Rightarrow> FVector \<Rightarrow> FVector) \<Rightarrow> real \<Rightarrow> bool \<Rightarrow> FVector \<Rightarrow> nat list
     \<Rightarrow> (nat \<Rightarrow> AActor) \<Rightarrow> (nat \<Rightarrow> AActor)" where
  "RotateActors rotateZ RotationAmount bRotateAroundPivot RotationPivot [] actors = actors"
| "RotateActors rotateZ RotationAmount bRotateAroundPivot RotationPivot (a # rest) actors =
     (let Actor = actors a;
          Moved = (if bRotateAroundPivot
                   then Actor\<lparr>ActorLocation := RotationPivot
                           + rotateZ RotationAmount (ActorLocation Actor - RotationPivot)\<rparr>
                   else Actor);
          CurrentRotation = ActorRotation Moved;
          Turned = Moved\<lparr>ActorRotation := FRotator (Pitch CurrentRotation)
                           (Yaw CurrentRotation + RotationAmount) (Roll CurrentRotation)\<rparr>
      in RotateActors rotateZ RotationAmount bRotateAroundPivot RotationPivot rest
           (actors(a := Turned)))"

definition RotateSelectedActors :: "real \<Rightarrow> bool \<Rightarrow> shortcuts \<Rightarrow> shortcuts" where
  "RotateSelectedActors ScrollDelta bIgnoreSnap w =
     (if \<not> GEditor w then w
      else case SelectedActors w of
        None \<Rightarrow> w
      | Some sel \<Rightarrow>
          if sel = [] then w
          else let RotationIncrement = 15;
                   Default = (if ScrollDelta > 0 then RotationIncrement else - RotationIncrement);
                   RotationAmount =
                     (case ViewportSettings w of
                        None \<Rightarrow> Default
                      | Some s \<Rightarrow>
                          if \<not> bIgnoreSnap \<and> RotGridEnabled s
                          then let RotGridIndex = CurrentRotGridSize s;
                                   RotGridSizes =
                                     (if CurrentRotGridMode s = GridMode_DivisionsOf360
                                      then DivisionsOf360RotGridSizes s
                                      else CommonRotGridSizes s)
                               in if IsValidIndex RotGridSizes RotGridIndex
                                  then (if ScrollDelta > 0 then RotGridSizes ! nat RotGridIndex
                                        else - (RotGridSizes ! nat RotGridIndex))
                                  else Default
                          else Default);
                   ActorsToRotate = ActorsOf sel;
                   GroupActor = FirstGroupRoot (GetRootForActor (Engine w)) ActorsToRotate
               in if ActorsToRotate = [] then w
                  else let w1 = FScopedTransaction ''Rotate Selected'' w;
                           bRotateAroundPivot = (length ActorsToRotate > 1 \<or> GroupActor \<noteq> None);
                           RotationPivot =
                             (if bRotateAroundPivot
                              then divV (sum_list (map (\<lambda>a. ActorLocation (Actors w1 a))
                                                     ActorsToRotate))
                                     (real (length ActorsToRotate))
                              else 0)
                       in FScopedTransaction_end
                            (w1\<lparr>Actors := RotateActors (RotateVector (Engine w1)) RotationAmount
                                             bRotateAroundPivot RotationPivot ActorsToRotate
                                             (Actors w1)\<rparr>))"

text \<open>
  \<open>LocationGridSnap_Clicked\<close> is the host's toggle of location grid snapping.
\<close>

definition ToggleGridSnap :: "shortcuts \<Rightarrow> shortcuts" where
  "ToggleGridSnap w =
     w\<lparr>ViewportSettings :=
         map_option (\<lambda>s. s\<lparr>GridEnabled := \<not> GridEnabled s\<rparr>) (ViewportSettings w)\<rparr>"

text \<open>
  \<open>ChangeGridSize\<close> calls \<open>GEditor->SetGridSize\<close> without a null check; with no
  editor singleton that call is a null dereference.
\<close>

definition ChangeGridSize :: "bool \<Rightarrow> shortcuts \<Rightarrow> shortcuts" where
  "ChangeGridSize bIncrement w =
     (case ViewportSettings w of
        None \<Rightarrow> w
      | Some s \<Rightarrow>
          let GridSizes = (if bUsePowerOf2SnapSize s then Pow2GridSizes s
                           else DecimalGridSizes s)
          in if length GridSizes = 0 then w
             else let CurrentIndex = CurrentPosGridSize s;
                      NewIndex = (if bIncrement
                                  then min (CurrentIndex + 1) (int (length GridSizes) - 1)
                                  else max (CurrentIndex - 1) 0)
                  in if NewIndex \<noteq> CurrentIndex
                     then (if GEditor w
                           then w\<lparr>ViewportSettings := Some (s\<lparr>CurrentPosGridSize := NewIndex\<rparr>)\<rparr>
                           else w\<lparr>Crashed := True\<rparr>)
                     else w)"

subsection \<open>Event handlers of the shortcut processor\<close>

definition NoModifiers :: "FKeyEvent \<Rightarrow> bool" where
  "NoModifiers ev \<longleftrightarrow> \<not> IsControlDown ev \<and> \<not> IsAltDown ev \<and> \<not> IsShiftDown ev"

text \<open>
  \<open>Tick\<close>. The cursor position read from the application is \<open>CursorPos\<close>, and
  warping the cursor writes it.
\<close>

definition FLevelEditorShortcutsProcessor_Tick :: "shortcuts \<Rightarrow> shortcuts" where
  "FLevelEditorShortcutsProcessor_Tick w =
     (let w0 = w\<lparr>CachedCursor := True\<rparr>
      in if GEditor w0 \<and> PlaySessionInProgress w0 then w0
         else if bQKeyDown w0 \<or> bEKeyDown w0 \<or> bRKeyDown w0
         then let CurrentMousePosition = CursorPos w0;
                  MouseDelta = CurrentMousePosition - LastMousePosition w0;
                  w1 = (if bCursorHidden w0
                        then w0\<lparr>CursorPos := DragStartCursorPos w0,
                                LastMousePosition := DragStartCursorPos w0\<rparr>
                        else w0\<lparr>LastMousePosition := CurrentMousePosition\<rparr>)
              in if IsNearlyZero2D MouseDelta then w1
                 else if bQKeyDown w1 then MoveSelectedActorsHorizontal MouseDelta w1
                 else if bEKeyDown w1 then MoveSelectedActorsVertical (Y2 MouseDelta) w1
                 else if bRKeyDown w1 then ScaleSelectedActorsUniform MouseDelta w1
                 else w1
         else w0)"

text \<open>
  \<open>HandleKeyDownEvent\<close>. The source tests the key in a row of \<open>if\<close> blocks; a
  block that does not return falls through to the blocks after it, none of which
  matches the same key, and so to the final \<open>return false\<close>: a drag key pressed
  with a modifier is tracked and not consumed.
\<close>

definition FLevelEditorShortcutsProcessor_HandleKeyDownEvent ::
  "FKeyEvent \<Rightarrow> shortcuts \<Rightarrow> bool \<times> shortcuts" where
  "FLevelEditorShortcutsProcessor_HandleKeyDownEvent InKeyEvent w =
     (if GEditor w \<and> PlaySessionInProgress w then (False, w)
      else let Key = GetKey InKeyEvent;
               bInLandscapeMode = LandscapeModeActive w;
               bInFoliageMode = FoliageModeActive w
           in if Key = EKeys_Q
              then (if bInLandscapeMode \<or> bInFoliageMode then (False, w)
                    else if \<not> IsLevelEditorViewportFocused w then (False, w)
                    else (NoModifiers InKeyEvent,
                          if \<not> bQKeyDown w
                          then SetCursorHidden True
                                 (w\<lparr>bQKeyDown := True, LastMousePosition := CursorPos w,
                                    DragStartCursorPos := CursorPos w\<rparr>)
                          else w))
              else if Key = EKeys_E
              then (if bInLandscapeMode \<or> bInFoliageMode then (False, w)
                    else if \<not> IsLevelEditorViewportFocused w then (False, w)
                    else (NoModifiers InKeyEvent,
                          if \<not> bEKeyDown w
                          then SetCursorHidden True
                                 (w\<lparr>bEKeyDown := True, LastMousePosition := CursorPos w,
                                    DragStartCursorPos := CursorPos w\<rparr>)
                          else w))
              else if Key = EKeys_G
              then (False, w\<lparr>bGKeyDown := True, bGScrolledWhileDown := False\<rparr>)
              else if Key = EKeys_R
              then (if bInLandscapeMode \<or> bInFoliageMode then (False, w)
                    else if \<not> IsLevelEditorViewportFocused w then (False, w)
                    else (NoModifiers InKeyEvent,
                          if \<not> bRKeyDown w
                          then SetCursorHidden True
                                 (w\<lparr>bRKeyDown := True, LastMousePosition := CursorPos w,
                                    DragStartCursorPos := CursorPos w\<rparr>)
                          else w))
              else if NoModifiers InKeyEvent \<and> \<not> bInLandscapeMode \<and> \<not> bInFoliageMode
              then (if Key = EKeys_One then SetWidgetModeOnActiveViewport WM_Translate w
                    else if Key = EKeys_Two then SetWidgetModeOnActiveViewport WM_Rotate w
                    else if Key = EKeys_Three then SetWidgetModeOnActiveViewport WM_Scale w
                    else (False, w))
              else (False, w))"

definition FLevelEditorShortcutsProcessor_HandleKeyUpEvent ::
  "FKeyEvent \<Rightarrow> shortcuts \<Rightarrow> bool \<times> shortcuts" where
  "FLevelEditorShortcutsProcessor_HandleKeyUpEvent InKeyEvent w =
     (if GEditor w \<and> PlaySessionInProgress w then (False, w)
      else if GetKey InKeyEvent = EKeys_Q
      then let w1 = (if bQScrolledWhileDown w then w\<lparr>WidgetMode := WM_Translate\<rparr> else w);
               w2 = w1\<lparr>bQKeyDown := False, bQScrolledWhileDown := False\<rparr>
           in (True, SetCursorHidden False (EndDragTransaction w2))
      else if GetKey InKeyEvent = EKeys_E
      then (True, SetCursorHidden False (EndDragTransaction (w\<lparr>bEKeyDown := False\<rparr>)))
      else if GetKey InKeyEvent = EKeys_R
      then (True, SetCursorHidden False (EndDragTransaction (w\<lparr>bRKeyDown := False\<rparr>)))
      else if GetKey InKeyEvent = EKeys_G
      then let w1 = (if \<not> bGScrolledWhileDown w then ToggleGridSnap w else w)
           in (False, w1\<lparr>bGKeyDown := False, bGScrolledWhileDown := False\<rparr>)
      else (False, w))"

definition FLevelEditorShortcutsProcessor_HandleMouseButtonDownEvent ::
  "FPointerEvent \<Rightarrow> shortcuts \<Rightarrow> bool \<times> shortcuts" where
  "FLevelEditorShortcutsProcessor_HandleMouseButtonDownEvent MouseEvent w =
     (if GEditor w \<and> PlaySessionInProgress w then (False, w)
      else if GetEffectingButton MouseEvent = EKeys_LeftMouseButton
              \<and> PointerIsShiftDown MouseEvent
              \<and> IsLevelEditorViewportFocused w \<and> WidgetMode w = WM_Rotate
      then (case ViewportSettings w of
              Some s \<Rightarrow>
                if RotGridEnabled s
                then (False, w\<lparr>ViewportSettings := Some (s\<lparr>RotGridEnabled := False\<rparr>),
                               bTemporarilyDisabledRotSnap := True\<rparr>)
                else (False, w)
            | None \<Rightarrow> (False, w))
      else (False, w))"

definition FLevelEditorShortcutsProcessor_HandleMouseButtonUpEvent ::
  "FPointerEvent \<Rightarrow> shortcuts \<Rightarrow> bool \<times> shortcuts" where
  "FLevelEditorShortcutsProcessor_HandleMouseButtonUpEvent MouseEvent w =
     (if GetEffectingButton MouseEvent = EKeys_LeftMouseButton \<and> bTemporarilyDisabledRotSnap w
      then (False,
            w\<lparr>ViewportSettings :=
                map_option (\<lambda>s. s\<lparr>RotGridEnabled := True\<rparr>) (ViewportSettings w),
              bTemporarilyDisabledRotSnap := False\<rparr>)
      else (False, w))"

definition FLevelEditorShortcutsProcessor_HandleMouseMoveEvent ::
  "FPointerEvent \<Rightarrow> shortcuts \<Rightarrow> bool \<times> shortcuts" where
  "FLevelEditorShortcutsProcessor_HandleMouseMoveEvent MouseEvent w = (False, w)"

definition FLevelEditorShortcutsProcessor_HandleMouseWheelOrGestureEvent ::
  "FPointerEvent \<Rightarrow> shortcuts \<Rightarrow> bool \<times> shortcuts" where
  "FLevelEditorShortcutsProcessor_HandleMouseWheelOrGestureEvent InWheelEvent w =
     (if GEditor w \<and> PlaySessionInProgress w then (False, w)
      else let ScrollDelta = GetWheelDelta InWheelEvent
           in if bQKeyDown w
              then (True, RotateSelectedActors ScrollDelta (PointerIsShiftDown InWheelEvent)
                            (w\<lparr>bQScrolledWhileDown := True\<rparr>))
              else if bGKeyDown w
              then (if \<not> LandscapeModeActive w \<and> \<not> FoliageModeActive w
                    then (True, ChangeGridSize (ScrollDelta > 0) (w\<lparr>bGScrolledWhileDown := True\<rparr>))
                    else (False, w\<lparr>bGScrolledWhileDown := True\<rparr>))
              else (False, w))"

section \<open>The transform copy/paste processor\<close>

text \<open>
  \<open>FTransformCopyPasteProcessor\<close>: its static members, on top of the host state.
\<close>

record copypaste = editor +
  CopiedTransform :: FTransform
  bHasCopiedTransform :: bool
  PendingPasteFolderPath :: FName
  ActorsBeforePaste :: "nat set"
  bPasteToFolderPending :: bool

definition CopySelectedTransform :: "copypaste \<Rightarrow> copypaste" where
  "CopySelectedTransform w =
     (if \<not> GEditor w then w
      else case SelectedActors w of
        None \<Rightarrow> w
      | Some sel \<Rightarrow>
          (case sel of
             [] \<Rightarrow> w
           | obj # _ \<Rightarrow>
               (case Cast_AActor obj of
                  None \<Rightarrow> w
                | Some SelectedActor \<Rightarrow>
                    w\<lparr>CopiedTransform := GetActorTransform (Actors w SelectedActor),
                      bHasCopiedTransform := True\<rparr>)))"

text \<open>
  The loop of \<open>PasteTransformToSelected\<close>: location and rotation of every selected
  actor are set from the copied transform; the result carries \<open>NumModified\<close>.
\<close>

fun PasteLoop ::
  "FTransform \<Rightarrow> UObject list \<Rightarrow> (nat \<Rightarrow> AActor) \<times> nat \<Rightarrow> (nat \<Rightarrow> AActor) \<times> nat" where
  "PasteLoop t [] st = st"
| "PasteLoop t (obj # sel) (actors, NumModified) =
     (case Cast_AActor obj of
        Some a \<Rightarrow>
          PasteLoop t sel
            (actors(a := (actors a)\<lparr>ActorLocation := GetLocation t,
                                    ActorRotation := GetRotation t\<rparr>),
             NumModified + 1)
      | None \<Rightarrow> PasteLoop t sel (actors, NumModified))"

definition PasteTransformToSelected :: "copypaste \<Rightarrow> bool \<times> copypaste" where
  "PasteTransformToSelected w =
     (if \<not> GEditor w \<or> \<not> bHasCopiedTransform w then (False, w)
      else case SelectedActors w of
        None \<Rightarrow> (False, w)
      | Some sel \<Rightarrow>
          if sel = [] then (False, w)
          else let w1 = FScopedTransaction ''Paste Transform'' w;
                   r = PasteLoop (CopiedTransform w1) sel (Actors w1, 0)
               in (snd r > 0, FScopedTransaction_end (w1\<lparr>Actors := fst r\<rparr>)))"

subsection \<open>Snapping to the ground\<close>

definition IsPhysicsCollision :: "ECollisionEnabled \<Rightarrow> bool" where
  "IsPhysicsCollision CollisionType \<longleftrightarrow>
     CollisionType = QueryAndPhysics \<or> CollisionType = PhysicsOnly"

text \<open>
  The re-cast loop, \<open>Attempts\<close> iterations left. \<open>trace\<close> is the line trace as
  a function of the ignored components. The result is the hit when \<open>bHit\<close> is true
  after the loop (\<open>None\<close> when it is false), and the components ignored by then.
\<close>

fun GroundTrace ::
  "(nat list \<Rightarrow> FHitResult option) \<Rightarrow> (nat \<Rightarrow> ECollisionEnabled) \<Rightarrow> nat \<Rightarrow> nat list
     \<Rightarrow> FHitResult option \<times> nat list" where
  "GroundTrace trace collision 0 ignored = (None, ignored)"
| "GroundTrace trace collision (Suc Attempts) ignored =
     (case trace ignored of
        None \<Rightarrow> (None, ignored)
      | Some HitResult \<Rightarrow>
          (case HitComponent HitResult of
             Some HitComp \<Rightarrow>
               if IsPhysicsCollision (collision HitComp) then (Some HitResult, ignored)
               else GroundTrace trace collision Attempts (HitComp # ignored)
           | None \<Rightarrow> GroundTrace trace collision Attempts ignored))"

text \<open>
  The body of the loop over the selection, for one actor; \<open>NewRotation\<close> gives the
  rotation from the current rotation and the hit (aligned to the surface in
  \<open>SnapSelectedToGround\<close>, zero in \<open>SnapSelectedToGroundNoRotation\<close>, the only
  difference between the two functions).
\<close>

definition SnapActor ::
  "engine \<Rightarrow> (FRotator \<Rightarrow> FHitResult \<Rightarrow> FRotator) \<Rightarrow> nat \<Rightarrow> (nat \<Rightarrow> AActor) \<times> nat
     \<Rightarrow> (nat \<Rightarrow> AActor) \<times> nat" where
  "SnapActor eng NewRotation a st =
     (let actors = fst st;
          Location = ActorLocation (actors a);
          Offset = MeshBottomOffset eng actors a;
          TraceStart = Location + FVector 0 0 500;
          TraceEnd = TraceStart - FVector 0 0 200000;
          IgnoredActors = a # GetAttachedActors eng a
      in case fst (GroundTrace
                     (LineTraceSingleByChannel eng actors TraceStart TraceEnd IgnoredActors)
                     (GetCollisionEnabled eng) 50 []) of
           None \<Rightarrow> st
         | Some HitResult \<Rightarrow>
             let NewLocation = FVector (X Location) (Y Location)
                                 (Z (ImpactPoint HitResult) + Offset + 5);
                 Moved = (actors a)\<lparr>ActorLocation := NewLocation\<rparr>
             in (actors(a := Moved\<lparr>ActorRotation := NewRotation (ActorRotation Moved) HitResult\<rparr>),
                 snd st + 1))"

fun SnapLoop ::
  "engine \<Rightarrow> (FRotator \<Rightarrow> FHitResult \<Rightarrow> FRotator) \<Rightarrow> UObject list \<Rightarrow> (nat \<Rightarrow> AActor) \<times> nat
     \<Rightarrow> (nat \<Rightarrow> AActor) \<times> nat" where
  "SnapLoop eng NewRotation [] st = st"
| "SnapLoop eng NewRotation (obj # sel) st =
     (case Cast_AActor obj of
        Some a \<Rightarrow> SnapLoop eng NewRotation sel (SnapActor eng NewRotation a st)
      | None \<Rightarrow> SnapLoop eng NewRotation sel st)"

definition SnapSelectedToGround :: "copypaste \<Rightarrow> bool \<times> copypaste" where
  "SnapSelectedToGround w =
     (if \<not> GEditor w then (False, w)
      else case SelectedActors w of
        None \<Rightarrow> (False, w)
      | Some sel \<Rightarrow>
          if sel = [] then (False, w)
          else if EditorWorld w = None then (False, w)
          else let w1 = FScopedTransaction ''Snap to Ground'' w;
                   r = SnapLoop (Engine w1)
                         (\<lambda>CurrentRotation HitResult.
                            AlignToSurface (Engine w1) CurrentRotation (ImpactNormal HitResult))
                         sel (Actors w1, 0)
               in (snd r > 0, FScopedTransaction_end (w1\<lparr>Actors := fst r\<rparr>)))"

definition SnapSelectedToGroundNoRotation :: "copypaste \<Rightarrow> bool \<times> copypaste" where
  "SnapSelectedToGroundNoRotation w =
     (if \<not> GEditor w then (False, w)
      else case SelectedActors w of
        None \<Rightarrow> (False, w)
      | Some sel \<Rightarrow>
          if sel = [] then (False, w)
          else if EditorWorld w = None then (False, w)
          else let w1 = FScopedTransaction ''Snap to Ground (No Rotation)'' w;
                   r = SnapLoop (Engine w1) (\<lambda>CurrentRotation HitResult. FRotator 0 0 0)
                         sel (Actors w1, 0)
               in (snd r > 0, FScopedTransaction_end (w1\<lparr>Actors := fst r\<rparr>)))"

subsection \<open>Duplicate in place, paste to folder\<close>

text \<open>
  The loop that puts the duplicates back: the selected object at index \<open>i\<close>, when
  an actor, gets the transform stored at index \<open>i\<close>.
\<close>

fun RestoreTransforms ::
  "FTransform list \<Rightarrow> nat \<Rightarrow> UObject list \<Rightarrow> (nat \<Rightarrow> AActor) \<Rightarrow> (nat \<Rightarrow> AActor)" where
  "RestoreTransforms OriginalTransforms i [] actors = actors"
| "RestoreTransforms OriginalTransforms i (obj # sel) actors =
     (case Cast_AActor obj of
        Some a \<Rightarrow>
          RestoreTransforms OriginalTransforms (Suc i) sel
            (actors(a := SetActorTransform (OriginalTransforms ! i) (actors a)))
      | None \<Rightarrow> RestoreTransforms OriginalTransforms (Suc i) sel actors)"

definition DuplicateInPlace :: "copypaste \<Rightarrow> bool \<times> copypaste" where
  "DuplicateInPlace w =
     (if \<not> GEditor w then (False, w)
      else case SelectedActors w of
        None \<Rightarrow> (False, w)
      | Some sel \<Rightarrow>
          if sel = [] then (False, w)
          else let OriginalTransforms = map (\<lambda>a. GetActorTransform (Actors w a)) (ActorsOf sel)
               in if OriginalTransforms = [] then (False, w)
                  else let d = ExecDuplicate (Engine w) (Actors w) sel (EditorWorld w);
                           w1 = w\<lparr>Actors := fst d, SelectedActors := fst (snd d),
                                  EditorWorld := snd (snd d)\<rparr>
                       in (case SelectedActors w1 of
                             None \<Rightarrow> (True, w1)
                           | Some dup \<Rightarrow>
                               if length dup = length OriginalTransforms
                               then let w2 = FScopedTransaction ''Duplicate In Place'' w1
                                    in (True,
                                        FScopedTransaction_end
                                          (w2\<lparr>Actors := RestoreTransforms OriginalTransforms 0 dup
                                                           (Actors w2)\<rparr>))
                               else (True, w1)))"

text \<open>The folder of the first selected actor, \<open>NAME_None\<close> without one.\<close>

fun FirstFolderPath :: "UObject list \<Rightarrow> (nat \<Rightarrow> AActor) \<Rightarrow> FName" where
  "FirstFolderPath [] actors = NAME_None"
| "FirstFolderPath (obj # sel) actors =
     (case Cast_AActor obj of
        Some a \<Rightarrow> FolderPath (actors a)
      | None \<Rightarrow> FirstFolderPath sel actors)"

definition SetupPasteToFolder :: "copypaste \<Rightarrow> bool \<times> copypaste" where
  "SetupPasteToFolder w =
     (if \<not> GEditor w then (False, w)
      else case EditorWorld w of
        None \<Rightarrow> (False, w)
      | Some world \<Rightarrow>
          (False,
           w\<lparr>PendingPasteFolderPath :=
               (case SelectedActors w of
                  Some sel \<Rightarrow> FirstFolderPath sel (Actors w)
                | None \<Rightarrow> NAME_None),
             ActorsBeforePaste := set world,
             bPasteToFolderPending := True\<rparr>))"

fun SetFolderPaths :: "FName \<Rightarrow> nat list \<Rightarrow> (nat \<Rightarrow> AActor) \<Rightarrow> (nat \<Rightarrow> AActor)" where
  "SetFolderPaths path [] actors = actors"
| "SetFolderPaths path (a # rest) actors =
     SetFolderPaths path rest (actors(a := (actors a)\<lparr>FolderPath := path\<rparr>))"

definition CompletePasteToFolder :: "copypaste \<Rightarrow> copypaste" where
  "CompletePasteToFolder w =
     (if \<not> GEditor w then w
      else case EditorWorld w of
        None \<Rightarrow> w
      | Some world \<Rightarrow>
          let NewlyPastedActors = filter (\<lambda>a. a \<notin> ActorsBeforePaste w) world;
              w1 = w\<lparr>ActorsBeforePaste := {}\<rparr>
          in if PendingPasteFolderPath w1 = NAME_None \<or> NewlyPastedActors = [] then w1
             else let w2 = FScopedTransaction ''Paste to Folder'' w1
                  in FScopedTransaction_end
                       (w2\<lparr>Actors := SetFolderPaths (PendingPasteFolderPath w2)
                                        NewlyPastedActors (Actors w2)\<rparr>))"

subsection \<open>Event handlers of the copy/paste processor\<close>

definition FTransformCopyPasteProcessor_Tick :: "copypaste \<Rightarrow> copypaste" where
  "FTransformCopyPasteProcessor_Tick w =
     (if bPasteToFolderPending w
      then CompletePasteToFolder (w\<lparr>bPasteToFolderPending := False\<rparr>)
      else w)"

text \<open>
  \<open>HandleKeyDownEvent\<close>. A shortcut whose operation returns false is not consumed
  and control falls through to the tests after it; the key matches none of them, so
  the final \<open>return false\<close> is reached with the state the operation left. The
  synthetic Ctrl+V sent to the operating system after \<open>SetupPasteToFolder\<close> comes
  back as later input events and changes nothing here.
\<close>

definition FTransformCopyPasteProcessor_HandleKeyDownEvent ::
  "FKeyEvent \<Rightarrow> copypaste \<Rightarrow> bool \<times> copypaste" where
  "FTransformCopyPasteProcessor_HandleKeyDownEvent InKeyEvent w =
     (if GEditor w \<and> PlaySessionInProgress w then (False, w)
      else if GetKey InKeyEvent = EKeys_B \<and> IsShiftDown InKeyEvent \<and> \<not> IsControlDown InKeyEvent
      then (let r = SnapSelectedToGroundNoRotation w
            in if fst r then (True, snd r) else (False, snd r))
      else if \<not> IsControlDown InKeyEvent then (False, w)
      else if GetKey InKeyEvent = EKeys_C then (False, CopySelectedTransform w)
      else if GetKey InKeyEvent = EKeys_T
      then (let r = PasteTransformToSelected w
            in if fst r then (True, snd r) else (False, snd r))
      else if GetKey InKeyEvent = EKeys_B \<and> \<not> IsShiftDown InKeyEvent
      then (let r = SnapSelectedToGround w
            in if fst r then (True, snd r) else (False, snd r))
      else if GetKey InKeyEvent = EKeys_D
      then (let r = DuplicateInPlace w
            in if fst r then (True, snd r) else (False, snd r))
      else if GetKey InKeyEvent = EKeys_V \<and> IsShiftDown InKeyEvent
      then (True, snd (SetupPasteToFolder w))
      else (False, w))"

definition FTransformCopyPasteProcessor_HandleKeyUpEvent ::
  "FKeyEvent \<Rightarrow> copypaste \<Rightarrow> bool \<times> copypaste" where
  "FTransformCopyPasteProcessor_HandleKeyUpEvent InKeyEvent w = (False, w)"

definition FTransformCopyPasteProcessor_HandleMouseWheelOrGestureEvent ::
  "FPointerEvent \<Rightarrow> copypaste \<Rightarrow> bool \<times> copypaste" where
  "FTransformCopyPasteProcessor_HandleMouseWheelOrGestureEvent InWheelEvent w = (False, w)"

section \<open>Drags as sequences of frames\<close>

text \<open>
  A Q-drag, E-drag or R-drag is the drag operation called once per processed frame.
  \<open>WorldDeltaH\<close> and \<open>WorldDeltaV\<close> are the world-space movement a frame
  adds to the accumulator; \<open>QDragInput\<close> and \<open>EDragInput\<close> sum them over the
  frames of a drag.
\<close>

definition WorldDeltaH :: "shortcuts \<Rightarrow> FVector2D \<Rightarrow> FVector" where
  "WorldDeltaH w MouseDelta =
     (case SelectedActors w of
        Some sel \<Rightarrow> HorizontalWorldDelta (Engine w) (Actors w) sel MouseDelta
      | None \<Rightarrow> 0)"

definition WorldDeltaV :: "shortcuts \<Rightarrow> real \<Rightarrow> FVector" where
  "WorldDeltaV w MouseDeltaY =
     (case SelectedActors w of
        Some sel \<Rightarrow> VerticalWorldDelta (Engine w) (Actors w) sel MouseDeltaY
      | None \<Rightarrow> 0)"

fun QDrag :: "FVector2D list \<Rightarrow> shortcuts \<Rightarrow> shortcuts" where
  "QDrag [] w = w"
| "QDrag (d # ds) w = QDrag ds (MoveSelectedActorsHorizontal d w)"

fun QDragInput :: "FVector2D list \<Rightarrow> shortcuts \<Rightarrow> FVector" where
  "QDragInput [] w = 0"
| "QDragInput (d # ds) w = WorldDeltaH w d + QDragInput ds (MoveSelectedActorsHorizontal d w)"

fun EDrag :: "real list \<Rightarrow> shortcuts \<Rightarrow> shortcuts" where
  "EDrag [] w = w"
| "EDrag (y # ys) w = EDrag ys (MoveSelectedActorsVertical y w)"

fun EDragInput :: "real list \<Rightarrow> shortcuts \<Rightarrow> FVector" where
  "EDragInput [] w = 0"
| "EDragInput (y # ys) w = WorldDeltaV w y + EDragInput ys (MoveSelectedActorsVertical y w)"

fun RDrag :: "FVector2D list \<Rightarrow> shortcuts \<Rightarrow> shortcuts" where
  "RDrag [] w = w"
| "RDrag (d # ds) w = RDrag ds (ScaleSelectedActorsUniform d w)"

text \<open>The accumulated \<open>deltaX - deltaY\<close> of a list of mouse deltas.\<close>

definition RadialSum :: "FVector2D list \<Rightarrow> real" where
  "RadialSum ds = sum_list (map (\<lambda>d. X2 d - Y2 d) ds)"

text \<open>
  The scale delta that the frames of an R-drag accumulate from the value \<open>t\<close>, with
  the rounding of every single-precision operation.
\<close>

fun AccumulatedScaleDelta :: "real \<Rightarrow> FVector2D list \<Rightarrow> real" where
  "AccumulatedScaleDelta t [] = t"
| "AccumulatedScaleDelta t (d # ds) =
     AccumulatedScaleDelta
       (Float32 (t + Float32 (Float32 (X2 d - Y2 d) * Float32 (4 / 1000)))) ds"

text \<open>
  A frame of a drag session: the user moves the mouse by a delta, then the processor
  ticks.
\<close>

definition MoveMouse :: "FVector2D \<Rightarrow> shortcuts \<Rightarrow> shortcuts" where
  "MoveMouse d w = w\<lparr>CursorPos := CursorPos w + d\<rparr>"

fun Frames :: "FVector2D list \<Rightarrow> shortcuts \<Rightarrow> shortcuts" where
  "Frames [] w = w"
| "Frames (d # ds) w = Frames ds (FLevelEditorShortcutsProcessor_Tick (MoveMouse d w))"

text \<open>
  The state in which \<open>Tick\<close> calls a drag operation: the cursor cached, and the
  last mouse position updated (the cursor warped back to the drag start when hidden).
\<close>

definition TrackCursor :: "shortcuts \<Rightarrow> shortcuts" where
  "TrackCursor w =
     (if bCursorHidden w
      then w\<lparr>CachedCursor := True, CursorPos := DragStartCursorPos w,
             LastMousePosition := DragStartCursorPos w\<rparr>
      else w\<lparr>CachedCursor := True, LastMousePosition := CursorPos w\<rparr>)"

section \<open>Example scenes\<close>

text \<open>
  A camera looking straight down with one world unit per pixel; below every actor a
  query-only trigger volume (component 0) at height 50 above a solid floor
  (component 1) at height 0.
\<close>

definition demo_engine :: engine where
  "demo_engine =
     \<lparr>HorizontalWorldDelta = (\<lambda>actors sel d. FVector (X2 d) (- Y2 d) 0),
      VerticalWorldDelta = (\<lambda>actors sel dy. FVector 0 0 (- dy)),
      MeshBottomOffset = (\<lambda>actors a. 0),
      GetCollisionEnabled = (\<lambda>c. if c = 0 then QueryOnly else QueryAndPhysics),
      GetAttachedActors = (\<lambda>a. []),
      LineTraceSingleByChannel =
        (\<lambda>actors start end ignoredActors ignoredComponents.
           if 0 \<notin> set ignoredComponents
           then Some \<lparr>HitComponent = Some 0, ImpactPoint = FVector (X start) (Y start) 50,
                       ImpactNormal = FVector 0 0 1\<rparr>
           else if 1 \<notin> set ignoredComponents
           then Some \<lparr>HitComponent = Some 1, ImpactPoint = FVector (X start) (Y start) 0,
                       ImpactNormal = FVector 0 0 1\<rparr>
           else None),
      AlignToSurface = (\<lambda>rotation normal. rotation),
      RotateVector = (\<lambda>degrees v. v),
      GetRootForActor = (\<lambda>a. None),
      ExecDuplicate = (\<lambda>actors sel world. (actors, Some sel, world))\<rparr>"

definition demo_settings :: ULevelEditorViewportSettings where
  "demo_settings =
     \<lparr>GridEnabled = True, bUsePowerOf2SnapSize = False, Pow2GridSizes = [],
      DecimalGridSizes = [1, 5, 10], CurrentPosGridSize = 2, RotGridEnabled = False,
      CurrentRotGridSize = 0, CurrentRotGridMode = GridMode_Common,
      DivisionsOf360RotGridSizes = [], CommonRotGridSizes = [],
      SnapScaleEnabled = False\<rparr>"

definition demo_actor :: AActor where
  "demo_actor =
     \<lparr>ActorLocation = FVector 0 0 100, ActorRotation = FRotator 0 90 0,
      ActorScale3D = FVector 2 2 2, FolderPath = ''Props''\<rparr>"

text \<open>
  The shortcut processor right after registration, in an editor with actor 0
  selected and the level viewport focused; grid snapping is on at size 10.
\<close>

definition demo_shortcuts :: shortcuts where
  "demo_shortcuts =
     \<lparr>GEditor = True, PlaySessionInProgress = False,
      SelectedActors = Some [ActorObject 0], EditorWorld = Some [0, 1],
      Actors = (\<lambda>a. demo_actor), Destroyed = {},
      ActiveLevelViewport = Some \<lparr>HasKeyboardFocus = True, HasFocusedDescendants = False\<rparr>,
      LandscapeModeActive = False, FoliageModeActive = False, WidgetMode = WM_Translate,
      ActiveViewportModeTools = None, ViewportSettings = Some demo_settings,
      ScaleGridSize = 1 / 4, CursorPos = FVector2D 400 300, CursorShown = True,
      Transactions = [], OpenTransactions = 0, Crashed = False, Engine = demo_engine,
      bQKeyDown = False, bQScrolledWhileDown = False, bEKeyDown = False, bRKeyDown = False,
      bGKeyDown = False, bGScrolledWhileDown = False, LastMousePosition = FVector2D 0 0,
      bTemporarilyDisabledRotSnap = False, bCursorHidden = False,
      DragStartCursorPos = FVector2D 0 0, CachedCursor = False, bDragInitialized = False,
      AccumulatedMovement = FVector 0 0 0, TotalScaleDelta = 0, ScaleDragInitialScales = [],
      DragTransaction = None\<rparr>"

text \<open>The copy/paste processor right after registration, in the same editor.\<close>

definition demo_copypaste :: copypaste where
  "demo_copypaste =
     \<lparr>GEditor = True, PlaySessionInProgress = False,
      SelectedActors = Some [ActorObject 0], EditorWorld = Some [0, 1],
      Actors = (\<lambda>a. demo_actor), Destroyed = {},
      ActiveLevelViewport = Some \<lparr>HasKeyboardFocus = True, HasFocusedDescendants = False\<rparr>,
      LandscapeModeActive = False, FoliageModeActive = False, WidgetMode = WM_Translate,
      ActiveViewportModeTools = None, ViewportSettings = Some demo_settings,
      ScaleGridSize = 1 / 4, CursorPos = FVector2D 400 300, CursorShown = True,
      Transactions = [], OpenTransactions = 0, Crashed = False, Engine = demo_engine,
      CopiedTransform = FTransform (FRotator 0 0 0) (FVector 0 0 0) (FVector 1 1 1),
      bHasCopiedTransform = False, PendingPasteFolderPath = NAME_None,
      ActorsBeforePaste = {}, bPasteToFolderPending = False\<rparr>"

definition KeyEvent :: "EKeys \<Rightarrow> bool \<Rightarrow> bool \<Rightarrow> FKeyEvent" where
  "KeyEvent k ctrl shift =
     \<lparr>GetKey = k, IsControlDown = ctrl, IsAltDown = False, IsShiftDown = shift\<rparr>"

section \<open>Notions used in the statements\<close>

text \<open>
  The block that opens a drag on its first processed movement, as the three drag
  operations have it: the drag is marked initialised and the drag transaction is made
  unless there is one.
\<close>

definition BeginDrag :: "string \<Rightarrow> shortcuts \<Rightarrow> shortcuts" where
  "BeginDrag description w =
     (if \<not> bDragInitialized w
      then EnsureDragTransaction description (w\<lparr>bDragInitialized := True\<rparr>)
      else w)"

text \<open>A vector whose components are whole multiples of the grid size.\<close>

definition IsGridMultiple :: "real \<Rightarrow> FVector \<Rightarrow> bool" where
  "IsGridMultiple S v \<longleftrightarrow>
     (\<exists>kx ky kz :: int. v = FVector (of_int kx * S) (of_int ky * S) (of_int kz * S))"

text \<open>
  The conditions under which a move is processed (editor singleton, a selection that
  is not empty, an active viewport), with the grid snap size in force.
\<close>

definition MoveGuards :: "shortcuts \<Rightarrow> UObject list \<Rightarrow> real \<Rightarrow> bool" where
  "MoveGuards w sel S \<longleftrightarrow>
     GEditor w \<and> SelectedActors w = Some sel \<and> sel \<noteq> [] \<and> GetActiveViewportClient w
     \<and> GetGridSnapSize w = S"

text \<open>
  The example editor zoomed in to 1/20000 world unit per pixel, with a single grid size
  of 1/20000.
\<close>

definition demo_fine_grid :: shortcuts where
  "demo_fine_grid =
     demo_shortcuts
       \<lparr>ViewportSettings :=
          Some (demo_settings\<lparr>DecimalGridSizes := [1 / 20000], CurrentPosGridSize := 0\<rparr>),
        Engine :=
          demo_engine\<lparr>HorizontalWorldDelta :=
            (\<lambda>actors sel d. FVector (X2 d / 20000) (- Y2 d / 20000) 0)\<rparr>\<rparr>"

text \<open>
  The scale snapshot in force for a frame of an R-drag: the stored one once the drag
  is initialised, the scales of the selected actors at that moment before.
\<close>

definition SnapshotInForce :: "shortcuts \<Rightarrow> (nat \<times> FVector) list" where
  "SnapshotInForce w =
     (if bDragInitialized w then ScaleDragInitialScales w
      else case SelectedActors w of
             Some sel \<Rightarrow> InitialScales sel (Actors w)
           | None \<Rightarrow> [])"

text \<open>The snapshot has an entry for the actor, and every entry for it holds this scale.\<close>

definition SnapshotHolds :: "(nat \<times> FVector) list \<Rightarrow> nat \<Rightarrow> FVector \<Rightarrow> bool" where
  "SnapshotHolds snapshot a s \<longleftrightarrow>
     a \<in> fst ` set snapshot \<and> (\<forall>p \<in> set snapshot. fst p = a \<longrightarrow> snd p = s)"

text \<open>Scale snapping is off: the setting is off or the scale grid size is not positive.\<close>

definition ScaleSnapOff :: "'a editor_scheme \<Rightarrow> bool" where
  "ScaleSnapOff w \<longleftrightarrow>
     \<not> ((case ViewportSettings w of Some s \<Rightarrow> SnapScaleEnabled s | None \<Rightarrow> False)
        \<and> ScaleGridSize w > 0)"

text \<open>The example editor with the selected actor mirrored along X.\<close>

definition demo_mirrored :: shortcuts where
  "demo_mirrored =
     demo_shortcuts\<lparr>Actors := (\<lambda>a. demo_actor\<lparr>ActorScale3D := FVector (- 1) 1 1\<rparr>)\<rparr>"



text \<open>
  The editor singleton is missing, or there is no selection, or it is empty: the first
  guards of every operation on the selection.
\<close>

definition NothingSelected :: "'a editor_scheme \<Rightarrow> bool" where
  "NothingSelected w \<longleftrightarrow> \<not> GEditor w \<or> SelectedActors w = None \<or> SelectedActors w = Some []"

text \<open>Every line trace in this world comes back without a hit.\<close>

definition RaycastFails :: "'a editor_scheme \<Rightarrow> bool" where
  "RaycastFails w \<longleftrightarrow>
     (\<forall>actors start end ignoredActors ignoredComponents.
        LineTraceSingleByChannel (Engine w) actors start end ignoredActors ignoredComponents
          = None)"

text \<open>The example editor over a void: no trace hits anything.\<close>

definition demo_void :: copypaste where
  "demo_void =
     demo_copypaste
       \<lparr>Engine := demo_engine
          \<lparr>LineTraceSingleByChannel :=
             (\<lambda>actors start end ignoredActors ignoredComponents. None)\<rparr>\<rparr>"

text \<open>
  Ctrl+Shift+V was pressed in the example editor when actor 0 was the only actor of
  the world; then actor 1 appeared in the world, in no folder, and a Play session
  began before the next tick.
\<close>

definition demo_pending_in_play :: copypaste where
  "demo_pending_in_play =
     (snd (FTransformCopyPasteProcessor_HandleKeyDownEvent (KeyEvent EKeys_V True True)
             (demo_copypaste\<lparr>EditorWorld := Some [0]\<rparr>)))
       \<lparr>EditorWorld := Some [0, 1],
        Actors := (\<lambda>a. if a = 1 then demo_actor\<lparr>FolderPath := NAME_None\<rparr> else demo_actor),
        PlaySessionInProgress := True\<rparr>"

lemmas demo_eval = demo_shortcuts_def demo_settings_def demo_engine_def demo_actor_def
  MoveSelectedActorsHorizontal_def MoveSelectedActorsVertical_def AccumulateAndMove_def
  SnapAxis_def GridSnap_def GetGridSnapSize_def IsValidIndex_def IsNearlyZero_def
  KINDA_SMALL_NUMBER_def EnsureDragTransaction_def FScopedTransaction_def
  GetActiveViewportClient_def plus_FVector_def minus_FVector_def zero_FVector_def Let_def
  WorldDeltaH_def WorldDeltaV_def MoveGuards_def

section \<open>Copy and paste of transforms\<close>

lemma PasteLoop_scale:
  "ActorScale3D (fst (PasteLoop t sel (actors, n)) a) = ActorScale3D (actors a)"
  by (induction sel arbitrary: actors n) (auto split: option.splits)

lemma PasteLoop_unselected:
  "ActorObject a \<notin> set sel \<Longrightarrow> fst (PasteLoop t sel (actors, n)) a = actors a"
proof (induction sel arbitrary: actors n)
  case Nil
  then show ?case by simp
next
  case (Cons obj sel)
  then show ?case by (cases obj) auto
qed

lemma PasteLoop_selected:
  "ActorObject a \<in> set sel \<Longrightarrow>
     ActorLocation (fst (PasteLoop t sel (actors, n)) a) = GetLocation t
     \<and> ActorRotation (fst (PasteLoop t sel (actors, n)) a) = GetRotation t"
proof (induction sel arbitrary: actors n)
  case Nil
  then show ?case by simp
next
  case (Cons obj sel)
  show ?case
  proof (cases "ActorObject a \<in> set sel")
    case True
    then show ?thesis using Cons.IH by (cases obj) simp_all
  next
    case False
    with Cons.prems have "obj = ActorObject a" by simp
    with False show ?thesis by (simp add: PasteLoop_unselected)
  qed
qed

text \<open>
  Claim C4. A paste of the copied transform (Ctrl+T) leaves the scale of every actor
  as it was; an actor that is selected when the paste runs gets the copied location
  and the copied rotation, and an actor that is not selected is not touched.
\<close>

theorem paste_keeps_scale:
  "ActorScale3D (Actors (snd (PasteTransformToSelected w)) a) = ActorScale3D (Actors w a)
   \<and> (GEditor w \<and> bHasCopiedTransform w \<and> SelectedActors w = Some sel \<and> ActorObject a \<in> set sel
        \<longrightarrow> ActorLocation (Actors (snd (PasteTransformToSelected w)) a)
              = GetLocation (CopiedTransform w)
            \<and> ActorRotation (Actors (snd (PasteTransformToSelected w)) a)
              = GetRotation (CopiedTransform w))
   \<and> (SelectedActors w = Some sel \<and> ActorObject a \<notin> set sel
        \<longrightarrow> Actors (snd (PasteTransformToSelected w)) a = Actors w a)"
  by (auto simp: PasteTransformToSelected_def FScopedTransaction_def FScopedTransaction_end_def
      PasteLoop_scale PasteLoop_selected PasteLoop_unselected Let_def split: option.splits)

theorem paste_keeps_scale_witness:
  "ActorScale3D (Actors (snd (PasteTransformToSelected
      (demo_copypaste\<lparr>CopiedTransform := FTransform (FRotator 0 45 0) (FVector 7 8 9) (FVector 5 5 5),
                       bHasCopiedTransform := True\<rparr>))) 0) = FVector 2 2 2
   \<and> ActorLocation (Actors (snd (PasteTransformToSelected
      (demo_copypaste\<lparr>CopiedTransform := FTransform (FRotator 0 45 0) (FVector 7 8 9) (FVector 5 5 5),
                       bHasCopiedTransform := True\<rparr>))) 0) = FVector 7 8 9
   \<and> ActorRotation (Actors (snd (PasteTransformToSelected
      (demo_copypaste\<lparr>CopiedTransform := FTransform (FRotator 0 45 0) (FVector 7 8 9) (FVector 5 5 5),
                       bHasCopiedTransform := True\<rparr>))) 0) = FRotator 0 45 0
   \<and> Actors (snd (PasteTransformToSelected
      (demo_copypaste\<lparr>CopiedTransform := FTransform (FRotator 0 45 0) (FVector 7 8 9) (FVector 5 5 5),
                       bHasCopiedTransform := True\<rparr>))) 1 = demo_actor"
  using paste_keeps_scale [of
      "demo_copypaste\<lparr>CopiedTransform := FTransform (FRotator 0 45 0) (FVector 7 8 9) (FVector 5 5 5),
                       bHasCopiedTransform := True\<rparr>" 0 "[ActorObject 0]"]
    paste_keeps_scale [of
      "demo_copypaste\<lparr>CopiedTransform := FTransform (FRotator 0 45 0) (FVector 7 8 9) (FVector 5 5 5),
                       bHasCopiedTransform := True\<rparr>" 1 "[ActorObject 0]"]
  by (simp add: demo_copypaste_def demo_actor_def)

lemma PasteLoop_ignores_scale:
  "PasteLoop (FTransform r l s) sel st = PasteLoop (FTransform r l s') sel st"
proof (induction sel arbitrary: st)
  case Nil
  show ?case by simp
next
  case (Cons obj sel)
  show ?case by (cases st; cases obj) (simp_all add: Cons.IH)
qed

text \<open>
  Claim C7, as the code has it. Copy (Ctrl+C) acts on the first selected object: when
  it is an actor, the snapshot becomes that actor's whole transform, which is its
  location, its rotation and also its scale, and the has-copied flag is set; no actor
  changes. The scale held in the snapshot has no effect on a paste: two snapshots
  that differ only in scale paste the same.
\<close>

theorem copy_records_first_selected:
  assumes "GEditor w" and "SelectedActors w = Some (ActorObject a # rest)"
  shows "GetLocation (CopiedTransform (CopySelectedTransform w)) = ActorLocation (Actors w a)
    \<and> GetRotation (CopiedTransform (CopySelectedTransform w)) = ActorRotation (Actors w a)
    \<and> GetScale3D (CopiedTransform (CopySelectedTransform w)) = ActorScale3D (Actors w a)
    \<and> bHasCopiedTransform (CopySelectedTransform w)
    \<and> Actors (CopySelectedTransform w) = Actors w
    \<and> Actors (snd (PasteTransformToSelected (w\<lparr>CopiedTransform := FTransform r l s\<rparr>)))
        = Actors (snd (PasteTransformToSelected (w\<lparr>CopiedTransform := FTransform r l s'\<rparr>)))"
  using assms
  by (simp add: CopySelectedTransform_def GetActorTransform_def PasteTransformToSelected_def
      FScopedTransaction_def FScopedTransaction_end_def Let_def
      PasteLoop_ignores_scale [of r l s _ _ s'])

theorem copy_records_first_selected_witness:
  "GEditor demo_copypaste \<and> SelectedActors demo_copypaste = Some (ActorObject 0 # [])
   \<and> CopiedTransform (CopySelectedTransform demo_copypaste)
       = FTransform (FRotator 0 90 0) (FVector 0 0 100) (FVector 2 2 2)
   \<and> bHasCopiedTransform (CopySelectedTransform demo_copypaste)"
  using copy_records_first_selected [of demo_copypaste 0 "[]"]
  by (simp add: demo_copypaste_def demo_actor_def CopySelectedTransform_def
      GetActorTransform_def)

text \<open>
  Claim C7 as stated fails twice. The snapshot carries the scale: two actors that
  differ in nothing but their scale leave different snapshots. And a selection whose
  first object is not an actor copies nothing, although an actor follows in it.
\<close>

theorem copy_snapshot_counterexample:
  "GetScale3D (CopiedTransform (CopySelectedTransform demo_copypaste)) = FVector 2 2 2
   \<and> CopiedTransform (CopySelectedTransform
         (demo_copypaste\<lparr>Actors := (\<lambda>a. demo_actor\<lparr>ActorScale3D := FVector 3 3 3\<rparr>)\<rparr>))
       \<noteq> CopiedTransform (CopySelectedTransform demo_copypaste)
   \<and> \<not> bHasCopiedTransform (CopySelectedTransform
         (demo_copypaste\<lparr>SelectedActors := Some [OtherObject 5, ActorObject 0]\<rparr>))"
  by (simp add: demo_copypaste_def demo_actor_def CopySelectedTransform_def
      GetActorTransform_def)

text \<open>
  Claim C10. A key-down event for the key C is never consumed by the copy/paste
  processor, whatever the modifiers and the state. When the selection is missing or
  empty, or its first object is not an actor, \<open>CopySelectedTransform\<close> changes
  nothing, so the snapshot and the has-copied flag stay as they were, also through
  the key handler.
\<close>

theorem ctrl_c_never_consumed:
  "(GetKey ev = EKeys_C \<longrightarrow> \<not> fst (FTransformCopyPasteProcessor_HandleKeyDownEvent ev w))
   \<and> (SelectedActors w = None \<or> SelectedActors w = Some []
        \<or> SelectedActors w = Some (OtherObject n # rest)
        \<longrightarrow> CopySelectedTransform w = w
            \<and> CopiedTransform (CopySelectedTransform w) = CopiedTransform w
            \<and> bHasCopiedTransform (CopySelectedTransform w) = bHasCopiedTransform w
            \<and> (GetKey ev = EKeys_C
                 \<longrightarrow> snd (FTransformCopyPasteProcessor_HandleKeyDownEvent ev w) = w))"
  by (auto simp: FTransformCopyPasteProcessor_HandleKeyDownEvent_def CopySelectedTransform_def)

theorem ctrl_c_never_consumed_witness:
  "GetKey (KeyEvent EKeys_C True False) = EKeys_C
   \<and> SelectedActors (demo_copypaste\<lparr>SelectedActors := Some []\<rparr>) = Some []
   \<and> FTransformCopyPasteProcessor_HandleKeyDownEvent (KeyEvent EKeys_C True False)
        (demo_copypaste\<lparr>SelectedActors := Some []\<rparr>)
      = (False, demo_copypaste\<lparr>SelectedActors := Some []\<rparr>)"
  using ctrl_c_never_consumed [of "KeyEvent EKeys_C True False"
      "demo_copypaste\<lparr>SelectedActors := Some []\<rparr>" 0 "[]"]
  by (simp add: KeyEvent_def prod_eq_iff)

section \<open>Ground snap\<close>

lemma GroundTrace_hit_physics:
  "fst (GroundTrace trace col n ign) = Some h \<Longrightarrow>
     \<exists>c. HitComponent h = Some c \<and> IsPhysicsCollision (col c)"
  by (induction n arbitrary: ign) (auto split: option.splits if_splits)

lemma GroundTrace_ignored:
  "c \<in> set (snd (GroundTrace trace col n ign)) \<Longrightarrow> c \<in> set ign \<or> \<not> IsPhysicsCollision (col c)"
proof (induction n arbitrary: ign)
  case 0
  then show ?case by simp
next
  case (Suc n)
  show ?case
  proof (cases "trace ign")
    case None
    with Suc.prems show ?thesis by simp
  next
    case (Some h)
    show ?thesis
    proof (cases "HitComponent h")
      case None
      with Some Suc.prems Suc.IH [of ign] show ?thesis by simp
    next
      case (Some hc)
      show ?thesis
      proof (cases "IsPhysicsCollision (col hc)")
        case True
        with Some \<open>trace ign = Some h\<close> Suc.prems show ?thesis by simp
      next
        case False
        with Some \<open>trace ign = Some h\<close> Suc.prems
        have "c \<in> set (snd (GroundTrace trace col n (hc # ign)))" by simp
        from Suc.IH [OF this] False show ?thesis by auto
      qed
    qed
  qed
qed

lemma GroundTrace_length:
  "length (snd (GroundTrace trace col n ign)) \<le> length ign + n"
proof (induction n arbitrary: ign)
  case 0
  show ?case by simp
next
  case (Suc n)
  have a: "length (snd (GroundTrace trace col n ign)) \<le> length ign + Suc n"
    using Suc.IH [of ign] by simp
  have b: "length (snd (GroundTrace trace col n (hc # ign))) \<le> length ign + Suc n" for hc
    using Suc.IH [of "hc # ign"] by simp
  show ?case using a b by (simp split: option.splits)
qed

lemma GroundTrace_gives_up:
  "\<forall>ign'. \<exists>h c. trace ign' = Some h \<and> HitComponent h = Some c \<and> \<not> IsPhysicsCollision (col c) \<Longrightarrow>
     fst (GroundTrace trace col n ign) = None
     \<and> length (snd (GroundTrace trace col n ign)) = length ign + n"
proof (induction n arbitrary: ign)
  case 0
  show ?case by simp
next
  case (Suc n)
  from Suc.prems obtain h c where
    "trace ign = Some h" "HitComponent h = Some c" "\<not> IsPhysicsCollision (col c)" by blast
  then show ?case using Suc.IH [OF Suc.prems, of "c # ign"] by simp
qed

lemma SnapActor_changes:
  "SnapActor eng rot a st \<noteq> st \<Longrightarrow>
     \<exists>h. fst (GroundTrace
              (LineTraceSingleByChannel eng (fst st)
                 (ActorLocation (fst st a) + FVector 0 0 500)
                 (ActorLocation (fst st a) + FVector 0 0 500 - FVector 0 0 200000)
                 (a # GetAttachedActors eng a))
              (GetCollisionEnabled eng) 50 []) = Some h"
  by (auto simp: SnapActor_def Let_def split: option.splits)


text \<open>
  Claim C5. In the re-cast loop of both ground snaps, a hit is accepted only when its
  component has collision \<open>QueryAndPhysics\<close> or \<open>PhysicsOnly\<close>. A hit on a
  component with any other collision puts that component on the ignore list and the
  ray is cast again with one attempt fewer; the ignore list only ever gains such
  components, at most one per attempt, and when every cast hits such a component the
  loop gives up after its attempts (50 in the snap) without a hit. The snap changes an
  actor only when the loop ended with an accepted hit.
\<close>

theorem ground_trace_skips_non_physics:
  "(fst (GroundTrace trace col n ign) = Some h
      \<longrightarrow> (\<exists>c. HitComponent h = Some c \<and> IsPhysicsCollision (col c)))
   \<and> (trace ign = Some h' \<and> HitComponent h' = Some c' \<and> \<not> IsPhysicsCollision (col c')
      \<longrightarrow> GroundTrace trace col (Suc n) ign = GroundTrace trace col n (c' # ign))
   \<and> (\<forall>c \<in> set (snd (GroundTrace trace col n ign)).
         c \<in> set ign \<or> \<not> IsPhysicsCollision (col c))
   \<and> length (snd (GroundTrace trace col n ign)) \<le> length ign + n
   \<and> ((\<forall>ign'. \<exists>h c. trace ign' = Some h \<and> HitComponent h = Some c
                     \<and> \<not> IsPhysicsCollision (col c))
      \<longrightarrow> fst (GroundTrace trace col n ign) = None
          \<and> length (snd (GroundTrace trace col n ign)) = length ign + n)
   \<and> (SnapActor eng rot a st \<noteq> st
      \<longrightarrow> (\<exists>g c. fst (GroundTrace
                        (LineTraceSingleByChannel eng (fst st)
                           (ActorLocation (fst st a) + FVector 0 0 500)
                           (ActorLocation (fst st a) + FVector 0 0 500 - FVector 0 0 200000)
                           (a # GetAttachedActors eng a))
                        (GetCollisionEnabled eng) 50 []) = Some g
                 \<and> HitComponent g = Some c
                 \<and> IsPhysicsCollision (GetCollisionEnabled eng c)))"
proof -
  have "SnapActor eng rot a st \<noteq> st
      \<longrightarrow> (\<exists>g c. fst (GroundTrace
                        (LineTraceSingleByChannel eng (fst st)
                           (ActorLocation (fst st a) + FVector 0 0 500)
                           (ActorLocation (fst st a) + FVector 0 0 500 - FVector 0 0 200000)
                           (a # GetAttachedActors eng a))
                        (GetCollisionEnabled eng) 50 []) = Some g
                 \<and> HitComponent g = Some c
                 \<and> IsPhysicsCollision (GetCollisionEnabled eng c))"
    using SnapActor_changes [of eng rot a st] GroundTrace_hit_physics by blast
  moreover have "trace ign = Some h' \<and> HitComponent h' = Some c' \<and> \<not> IsPhysicsCollision (col c')
      \<longrightarrow> GroundTrace trace col (Suc n) ign = GroundTrace trace col n (c' # ign)"
    by simp
  ultimately show ?thesis
    using GroundTrace_hit_physics [of trace col n ign h] GroundTrace_ignored [of _ trace col n ign]
      GroundTrace_length [of trace col n ign] GroundTrace_gives_up [of trace col n ign]
    by blast
qed

theorem ground_trace_skips_non_physics_witness:
  "GroundTrace (LineTraceSingleByChannel demo_engine (\<lambda>a. demo_actor)
       (FVector 0 0 600) (FVector 0 0 (- 199400)) [0])
     (GetCollisionEnabled demo_engine) 50 []
   = (Some \<lparr>HitComponent = Some 1, ImpactPoint = FVector 0 0 0, ImpactNormal = FVector 0 0 1\<rparr>,
      [0])
   \<and> IsPhysicsCollision (GetCollisionEnabled demo_engine 1)
   \<and> \<not> IsPhysicsCollision (GetCollisionEnabled demo_engine 0)
   \<and> fst (SnapActor demo_engine (\<lambda>r g. r) 0 (\<lambda>a. demo_actor, 0)) 0
       = demo_actor\<lparr>ActorLocation := FVector 0 0 5\<rparr>
   \<and> fst (GroundTrace
        (\<lambda>ignored. Some \<lparr>HitComponent = Some (length ignored), ImpactPoint = FVector 0 0 0,
                           ImpactNormal = FVector 0 0 1\<rparr>)
        (\<lambda>c. QueryOnly) 50 []) = None
   \<and> length (snd (GroundTrace
        (\<lambda>ignored. Some \<lparr>HitComponent = Some (length ignored), ImpactPoint = FVector 0 0 0,
                           ImpactNormal = FVector 0 0 1\<rparr>)
        (\<lambda>c. QueryOnly) 50 [])) = 50"
  using ground_trace_skips_non_physics [of
      "LineTraceSingleByChannel demo_engine (\<lambda>a. demo_actor)
         (FVector 0 0 600) (FVector 0 0 (- 199400)) [0]"
      "GetCollisionEnabled demo_engine" 50 "[]"
      "\<lparr>HitComponent = Some 1, ImpactPoint = FVector 0 0 0, ImpactNormal = FVector 0 0 1\<rparr>"
      "\<lparr>HitComponent = Some 0, ImpactPoint = FVector 0 0 50, ImpactNormal = FVector 0 0 1\<rparr>"
      0 demo_engine "\<lambda>r g. r" 0 "(\<lambda>a. demo_actor, 0)"]
    ground_trace_skips_non_physics [of
      "\<lambda>ignored. Some \<lparr>HitComponent = Some (length ignored), ImpactPoint = FVector 0 0 0,
                         ImpactNormal = FVector 0 0 1\<rparr>"
      "\<lambda>c. QueryOnly" 50 "[]"
      "\<lparr>HitComponent = Some 1, ImpactPoint = FVector 0 0 0, ImpactNormal = FVector 0 0 1\<rparr>"
      "\<lparr>HitComponent = Some 0, ImpactPoint = FVector 0 0 0, ImpactNormal = FVector 0 0 1\<rparr>"
      0 demo_engine "\<lambda>r g. r" 0 "(\<lambda>a. demo_actor, 0)"]
  by (simp add: demo_engine_def demo_actor_def numeral_eq_Suc IsPhysicsCollision_def
      SnapActor_def Let_def plus_FVector_def minus_FVector_def)

section \<open>Grid snapping of a move\<close>

lemma SnapAxis_sum: "fst (SnapAxis S x) + snd (SnapAxis S x) = x"
  by (simp add: SnapAxis_def)

lemma SnapAxis_multiple: "S \<noteq> 0 \<Longrightarrow> \<exists>k::int. fst (SnapAxis S x) = of_int k * S"
proof (cases "\<bar>x\<bar> \<ge> S")
  case True
  assume "S \<noteq> 0"
  with True have "fst (SnapAxis S x) = of_int \<lfloor>(x + S / 2) / S\<rfloor> * S"
    by (simp add: SnapAxis_def GridSnap_def)
  then show ?thesis by blast
next
  case False
  then have "fst (SnapAxis S x) = of_int 0 * S" by (simp add: SnapAxis_def)
  then show ?thesis by blast
qed

lemma GridSnap_reaches:
  assumes "0 < S" and "S \<le> \<bar>x\<bar>"
  shows "S \<le> \<bar>GridSnap x S\<bar>"
proof (cases "0 \<le> x")
  case True
  with assms have "S \<le> x" by simp
  then have "1 \<le> (x + S / 2) / S" using assms(1) by (simp add: field_simps)
  then have "1 \<le> \<lfloor>(x + S / 2) / S\<rfloor>" by linarith
  then have "(1::real) \<le> of_int \<lfloor>(x + S / 2) / S\<rfloor>" by linarith
  then have "1 * S \<le> of_int \<lfloor>(x + S / 2) / S\<rfloor> * S"
    using assms(1) by (intro mult_right_mono) simp_all
  then show ?thesis using assms(1) by (simp add: GridSnap_def)
next
  case False
  with assms have "x \<le> - S" by simp
  then have "(x + S / 2) / S < 0" using assms(1) by (simp add: field_simps)
  then have "\<lfloor>(x + S / 2) / S\<rfloor> \<le> - 1" by linarith
  then have "of_int \<lfloor>(x + S / 2) / S\<rfloor> \<le> (- 1::real)" by linarith
  then have "of_int \<lfloor>(x + S / 2) / S\<rfloor> * S \<le> - 1 * S"
    using assms(1) by (intro mult_right_mono) simp_all
  then show ?thesis using assms(1) by (simp add: GridSnap_def)
qed

lemma SnapAxis_small:
  assumes "t < S" and "0 \<le> t" and "\<bar>fst (SnapAxis S x)\<bar> \<le> t"
  shows "fst (SnapAxis S x) = 0 \<and> snd (SnapAxis S x) = x"
proof (cases "S \<le> \<bar>x\<bar>")
  case True
  with assms have "S \<le> \<bar>GridSnap x S\<bar>" by (intro GridSnap_reaches) simp_all
  with True assms show ?thesis by (simp add: SnapAxis_def)
next
  case False
  then show ?thesis by (simp add: SnapAxis_def)
qed

lemma AddActorLocation_unselected:
  "a \<notin> set (ActorsOf sel) \<Longrightarrow> AddActorLocation d sel actors a = actors a"
proof (induction sel arbitrary: actors)
  case Nil
  show ?case by simp
next
  case (Cons obj sel)
  then show ?case by (cases obj) auto
qed

lemma AddActorLocation_selected:
  "distinct (ActorsOf sel) \<Longrightarrow> a \<in> set (ActorsOf sel) \<Longrightarrow>
     ActorLocation (AddActorLocation d sel actors a) = ActorLocation (actors a) + d"
proof (induction sel arbitrary: actors)
  case Nil
  then show ?case by simp
next
  case (Cons obj sel)
  show ?case
  proof (cases obj)
    case (OtherObject n)
    with Cons show ?thesis by simp
  next
    case (ActorObject b)
    show ?thesis
    proof (cases "b = a")
      case True
      with ActorObject Cons.prems have "a \<notin> set (ActorsOf sel)" by simp
      with ActorObject True show ?thesis by (simp add: AddActorLocation_unselected)
    next
      case False
      with ActorObject Cons show ?thesis by simp
    qed
  qed
qed


lemma GetGridSnapSize_cong:
  "ViewportSettings w' = ViewportSettings w \<Longrightarrow> GetGridSnapSize w' = GetGridSnapSize w"
  by (simp add: GetGridSnapSize_def)

lemma AddActorLocation_keeps:
  "ActorScale3D (AddActorLocation d sel actors a) = ActorScale3D (actors a)
   \<and> ActorRotation (AddActorLocation d sel actors a) = ActorRotation (actors a)
   \<and> FolderPath (AddActorLocation d sel actors a) = FolderPath (actors a)"
proof (induction sel arbitrary: actors)
  case Nil
  show ?case by simp
next
  case (Cons obj sel)
  show ?case by (cases obj) (simp_all add: Cons.IH)
qed

lemma AccumulateAndMove_step:
  assumes S: "KINDA_SMALL_NUMBER < GetGridSnapSize w"
    and dist: "distinct (ActorsOf sel)" and a: "a \<in> set (ActorsOf sel)"
  shows "ActorLocation (Actors (AccumulateAndMove d sel w) a)
           + AccumulatedMovement (AccumulateAndMove d sel w)
         = ActorLocation (Actors w a) + AccumulatedMovement w + d"
    and "\<exists>kx ky kz :: int. ActorLocation (Actors (AccumulateAndMove d sel w) a)
           = ActorLocation (Actors w a)
             + FVector (of_int kx * GetGridSnapSize w) (of_int ky * GetGridSnapSize w)
                 (of_int kz * GetGridSnapSize w)"
proof -
  define G where "G = GetGridSnapSize w"
  define acc where "acc = AccumulatedMovement w + d"
  define act where "act = FVector (fst (SnapAxis G (X acc))) (fst (SnapAxis G (Y acc)))
     (fst (SnapAxis G (Z acc)))"
  define res where "res = FVector (snd (SnapAxis G (X acc))) (snd (SnapAxis G (Y acc)))
     (snd (SnapAxis G (Z acc)))"
  have tol: "0 \<le> KINDA_SMALL_NUMBER" by (simp add: KINDA_SMALL_NUMBER_def)
  with S have G: "0 < G" "KINDA_SMALL_NUMBER < G" by (simp_all add: G_def)
  have sum: "act + res = acc"
    by (simp add: act_def res_def plus_FVector_def SnapAxis_sum)
  from G(1) have "G \<noteq> 0" by simp
  from SnapAxis_multiple [OF this] obtain kx :: int where kx: "fst (SnapAxis G (X acc)) = of_int kx * G"
    by blast
  from SnapAxis_multiple [OF \<open>G \<noteq> 0\<close>] obtain ky :: int where ky: "fst (SnapAxis G (Y acc)) = of_int ky * G"
    by blast
  from SnapAxis_multiple [OF \<open>G \<noteq> 0\<close>] obtain kz :: int where kz: "fst (SnapAxis G (Z acc)) = of_int kz * G"
    by blast
  have k: "act = FVector (of_int kx * G) (of_int ky * G) (of_int kz * G)"
    by (simp add: act_def kx ky kz)
  have both: "ActorLocation (Actors (AccumulateAndMove d sel w) a)
           + AccumulatedMovement (AccumulateAndMove d sel w)
         = ActorLocation (Actors w a) + AccumulatedMovement w + d
     \<and> ActorLocation (Actors (AccumulateAndMove d sel w) a) = ActorLocation (Actors w a) + act"
  proof (cases "IsNearlyZero act")
    case True
    then have small: "\<bar>fst (SnapAxis G (X acc))\<bar> \<le> KINDA_SMALL_NUMBER"
      "\<bar>fst (SnapAxis G (Y acc))\<bar> \<le> KINDA_SMALL_NUMBER"
      "\<bar>fst (SnapAxis G (Z acc))\<bar> \<le> KINDA_SMALL_NUMBER"
      by (simp_all add: IsNearlyZero_def act_def)
    note zx = SnapAxis_small [OF G(2) tol small(1)]
    note zy = SnapAxis_small [OF G(2) tol small(2)]
    note zz = SnapAxis_small [OF G(2) tol small(3)]
    have z: "act = 0" "res = acc"
      by (simp_all add: act_def res_def zero_FVector_def zx zy zz)
    from True G(1) have "AccumulateAndMove d sel w = w\<lparr>AccumulatedMovement := res\<rparr>"
      by (simp add: AccumulateAndMove_def Let_def act_def res_def G_def acc_def)
    then show ?thesis using z by (simp add: acc_def add.assoc)
  next
    case False
    with G(1) have "AccumulateAndMove d sel w
        = w\<lparr>AccumulatedMovement := res, Actors := AddActorLocation act sel (Actors w)\<rparr>"
      by (simp add: AccumulateAndMove_def Let_def act_def res_def G_def acc_def)
    then show ?thesis
      using sum by (simp add: AddActorLocation_selected [OF dist a] acc_def add.assoc)
  qed
  from both show "ActorLocation (Actors (AccumulateAndMove d sel w) a)
           + AccumulatedMovement (AccumulateAndMove d sel w)
         = ActorLocation (Actors w a) + AccumulatedMovement w + d" by (rule conjunct1)
  from both k show "\<exists>kx ky kz :: int. ActorLocation (Actors (AccumulateAndMove d sel w) a)
           = ActorLocation (Actors w a)
             + FVector (of_int kx * GetGridSnapSize w) (of_int ky * GetGridSnapSize w)
                 (of_int kz * GetGridSnapSize w)"
    unfolding G_def by blast
qed


lemma AccumulateAndMove_multiple:
  assumes S: "0 < GetGridSnapSize w"
    and dist: "distinct (ActorsOf sel)" and a: "a \<in> set (ActorsOf sel)"
  shows "IsGridMultiple (GetGridSnapSize w)
           (ActorLocation (Actors (AccumulateAndMove d sel w) a) - ActorLocation (Actors w a))"
proof -
  define G where "G = GetGridSnapSize w"
  define acc where "acc = AccumulatedMovement w + d"
  define act where "act = FVector (fst (SnapAxis G (X acc))) (fst (SnapAxis G (Y acc)))
     (fst (SnapAxis G (Z acc)))"
  define res where "res = FVector (snd (SnapAxis G (X acc))) (snd (SnapAxis G (Y acc)))
     (snd (SnapAxis G (Z acc)))"
  from S have G: "0 < G" "G \<noteq> 0" by (simp_all add: G_def)
  from SnapAxis_multiple [OF G(2)] obtain kx :: int
    where kx: "fst (SnapAxis G (X acc)) = of_int kx * G" by blast
  from SnapAxis_multiple [OF G(2)] obtain ky :: int
    where ky: "fst (SnapAxis G (Y acc)) = of_int ky * G" by blast
  from SnapAxis_multiple [OF G(2)] obtain kz :: int
    where kz: "fst (SnapAxis G (Z acc)) = of_int kz * G" by blast
  have k: "IsGridMultiple G act"
    unfolding IsGridMultiple_def act_def kx ky kz by blast
  have z: "IsGridMultiple G 0"
    unfolding IsGridMultiple_def zero_FVector_def
    by (intro exI [of _ 0]) simp
  show ?thesis
  proof (cases "IsNearlyZero act")
    case True
    with G(1) have "AccumulateAndMove d sel w = w\<lparr>AccumulatedMovement := res\<rparr>"
      by (simp add: AccumulateAndMove_def Let_def act_def res_def G_def acc_def)
    with z show ?thesis by (simp add: G_def)
  next
    case False
    with G(1) have "AccumulateAndMove d sel w
        = w\<lparr>AccumulatedMovement := res, Actors := AddActorLocation act sel (Actors w)\<rparr>"
      by (simp add: AccumulateAndMove_def Let_def act_def res_def G_def acc_def)
    with k show ?thesis by (simp add: AddActorLocation_selected [OF dist a] G_def)
  qed
qed

lemma BeginDrag_fields [simp]:
  "GEditor (BeginDrag s w) = GEditor w"
  "SelectedActors (BeginDrag s w) = SelectedActors w"
  "ActiveLevelViewport (BeginDrag s w) = ActiveLevelViewport w"
  "ViewportSettings (BeginDrag s w) = ViewportSettings w"
  "Engine (BeginDrag s w) = Engine w"
  "Actors (BeginDrag s w) = Actors w"
  "AccumulatedMovement (BeginDrag s w) = AccumulatedMovement w"
  by (simp_all add: BeginDrag_def EnsureDragTransaction_def FScopedTransaction_def)

lemma AccumulateAndMove_fields [simp]:
  "GEditor (AccumulateAndMove d sel w) = GEditor w"
  "SelectedActors (AccumulateAndMove d sel w) = SelectedActors w"
  "ActiveLevelViewport (AccumulateAndMove d sel w) = ActiveLevelViewport w"
  "ViewportSettings (AccumulateAndMove d sel w) = ViewportSettings w"
  "Engine (AccumulateAndMove d sel w) = Engine w"
  by (simp_all add: AccumulateAndMove_def Let_def)

lemma MoveSelectedActorsHorizontal_guarded:
  assumes "GEditor w" and "SelectedActors w = Some sel" and "sel \<noteq> []"
    and "GetActiveViewportClient w"
  shows "MoveSelectedActorsHorizontal d w
    = AccumulateAndMove (WorldDeltaH w d) sel (BeginDrag ''Move Horizontal'' w)"
  using assms
  by (simp add: MoveSelectedActorsHorizontal_def WorldDeltaH_def BeginDrag_def Let_def
      EnsureDragTransaction_def FScopedTransaction_def)

lemma MoveSelectedActorsVertical_guarded:
  assumes "GEditor w" and "SelectedActors w = Some sel" and "sel \<noteq> []"
    and "GetActiveViewportClient w"
  shows "MoveSelectedActorsVertical y w
    = AccumulateAndMove (WorldDeltaV w y) sel (BeginDrag ''Move Vertical'' w)"
  using assms
  by (simp add: MoveSelectedActorsVertical_def WorldDeltaV_def BeginDrag_def Let_def
      EnsureDragTransaction_def FScopedTransaction_def)

lemma MoveGuards_H: "MoveGuards w sel S \<Longrightarrow> MoveGuards (MoveSelectedActorsHorizontal d w) sel S"
  by (simp add: MoveGuards_def MoveSelectedActorsHorizontal_guarded GetActiveViewportClient_def
      GetGridSnapSize_def)

lemma MoveGuards_V: "MoveGuards w sel S \<Longrightarrow> MoveGuards (MoveSelectedActorsVertical y w) sel S"
  by (simp add: MoveGuards_def MoveSelectedActorsVertical_guarded GetActiveViewportClient_def
      GetGridSnapSize_def)

lemma MoveH_conserves:
  assumes g: "MoveGuards w sel S" and S: "KINDA_SMALL_NUMBER < S"
    and dist: "distinct (ActorsOf sel)" and a: "a \<in> set (ActorsOf sel)"
  shows "ActorLocation (Actors (MoveSelectedActorsHorizontal d w) a)
           + AccumulatedMovement (MoveSelectedActorsHorizontal d w)
         = ActorLocation (Actors w a) + AccumulatedMovement w + WorldDeltaH w d"
proof -
  from g have eq: "MoveSelectedActorsHorizontal d w
      = AccumulateAndMove (WorldDeltaH w d) sel (BeginDrag ''Move Horizontal'' w)"
    by (simp add: MoveGuards_def MoveSelectedActorsHorizontal_guarded)
  from g S have "KINDA_SMALL_NUMBER < GetGridSnapSize (BeginDrag ''Move Horizontal'' w)"
    by (simp add: MoveGuards_def GetGridSnapSize_def)
  from AccumulateAndMove_step(1) [OF this dist a, of "WorldDeltaH w d"]
  show ?thesis by (simp add: eq)
qed

lemma MoveV_conserves:
  assumes g: "MoveGuards w sel S" and S: "KINDA_SMALL_NUMBER < S"
    and dist: "distinct (ActorsOf sel)" and a: "a \<in> set (ActorsOf sel)"
  shows "ActorLocation (Actors (MoveSelectedActorsVertical y w) a)
           + AccumulatedMovement (MoveSelectedActorsVertical y w)
         = ActorLocation (Actors w a) + AccumulatedMovement w + WorldDeltaV w y"
proof -
  from g have eq: "MoveSelectedActorsVertical y w
      = AccumulateAndMove (WorldDeltaV w y) sel (BeginDrag ''Move Vertical'' w)"
    by (simp add: MoveGuards_def MoveSelectedActorsVertical_guarded)
  from g S have "KINDA_SMALL_NUMBER < GetGridSnapSize (BeginDrag ''Move Vertical'' w)"
    by (simp add: MoveGuards_def GetGridSnapSize_def)
  from AccumulateAndMove_step(1) [OF this dist a, of "WorldDeltaV w y"]
  show ?thesis by (simp add: eq)
qed

lemma MoveH_multiple:
  assumes g: "MoveGuards w sel S" and S: "0 < S"
    and dist: "distinct (ActorsOf sel)" and a: "a \<in> set (ActorsOf sel)"
  shows "IsGridMultiple S (ActorLocation (Actors (MoveSelectedActorsHorizontal d w) a)
           - ActorLocation (Actors w a))"
proof -
  from g have eq: "MoveSelectedActorsHorizontal d w
      = AccumulateAndMove (WorldDeltaH w d) sel (BeginDrag ''Move Horizontal'' w)"
    by (simp add: MoveGuards_def MoveSelectedActorsHorizontal_guarded)
  from g have GS: "GetGridSnapSize (BeginDrag ''Move Horizontal'' w) = S"
    by (simp add: MoveGuards_def GetGridSnapSize_def)
  with S have "0 < GetGridSnapSize (BeginDrag ''Move Horizontal'' w)" by simp
  from AccumulateAndMove_multiple [OF this dist a, of "WorldDeltaH w d"]
  show ?thesis by (simp add: eq GS)
qed

lemma MoveV_multiple:
  assumes g: "MoveGuards w sel S" and S: "0 < S"
    and dist: "distinct (ActorsOf sel)" and a: "a \<in> set (ActorsOf sel)"
  shows "IsGridMultiple S (ActorLocation (Actors (MoveSelectedActorsVertical y w) a)
           - ActorLocation (Actors w a))"
proof -
  from g have eq: "MoveSelectedActorsVertical y w
      = AccumulateAndMove (WorldDeltaV w y) sel (BeginDrag ''Move Vertical'' w)"
    by (simp add: MoveGuards_def MoveSelectedActorsVertical_guarded)
  from g have GS: "GetGridSnapSize (BeginDrag ''Move Vertical'' w) = S"
    by (simp add: MoveGuards_def GetGridSnapSize_def)
  with S have "0 < GetGridSnapSize (BeginDrag ''Move Vertical'' w)" by simp
  from AccumulateAndMove_multiple [OF this dist a, of "WorldDeltaV w y"]
  show ?thesis by (simp add: eq GS)
qed

lemma QDrag_guards: "MoveGuards w sel S \<Longrightarrow> MoveGuards (QDrag ds w) sel S"
  by (induction ds arbitrary: w) (simp_all add: MoveGuards_H)

lemma EDrag_guards: "MoveGuards w sel S \<Longrightarrow> MoveGuards (EDrag ys w) sel S"
  by (induction ys arbitrary: w) (simp_all add: MoveGuards_V)

lemma QDrag_snoc: "QDrag (ds @ [d]) w = MoveSelectedActorsHorizontal d (QDrag ds w)"
  by (induction ds arbitrary: w) simp_all

lemma EDrag_snoc: "EDrag (ys @ [y]) w = MoveSelectedActorsVertical y (EDrag ys w)"
  by (induction ys arbitrary: w) simp_all

lemma QDrag_conserves:
  assumes "KINDA_SMALL_NUMBER < S" and "distinct (ActorsOf sel)" and "a \<in> set (ActorsOf sel)"
  shows "MoveGuards w sel S \<Longrightarrow>
    ActorLocation (Actors (QDrag ds w) a) + AccumulatedMovement (QDrag ds w)
      = ActorLocation (Actors w a) + AccumulatedMovement w + QDragInput ds w"
proof (induction ds arbitrary: w)
  case Nil
  show ?case by simp
next
  case (Cons d ds)
  note step = MoveH_conserves [OF Cons.prems assms, of d]
  from Cons.IH [OF MoveGuards_H [OF Cons.prems], of d] step
  show ?case by (simp add: add.assoc)
qed

lemma EDrag_conserves:
  assumes "KINDA_SMALL_NUMBER < S" and "distinct (ActorsOf sel)" and "a \<in> set (ActorsOf sel)"
  shows "MoveGuards w sel S \<Longrightarrow>
    ActorLocation (Actors (EDrag ys w) a) + AccumulatedMovement (EDrag ys w)
      = ActorLocation (Actors w a) + AccumulatedMovement w + EDragInput ys w"
proof (induction ys arbitrary: w)
  case Nil
  show ?case by simp
next
  case (Cons y ys)
  note step = MoveV_conserves [OF Cons.prems assms, of y]
  from Cons.IH [OF MoveGuards_V [OF Cons.prems], of y] step
  show ?case by (simp add: add.assoc)
qed

lemma QDrag_frame:
  assumes "MoveGuards w sel S" and "0 < S" and "distinct (ActorsOf sel)"
    and "a \<in> set (ActorsOf sel)" and "n < length ds"
  shows "IsGridMultiple S (ActorLocation (Actors (QDrag (take (Suc n) ds) w) a)
           - ActorLocation (Actors (QDrag (take n ds) w) a))"
proof -
  from assms(5) have "take (Suc n) ds = take n ds @ [ds ! n]"
    by (rule take_Suc_conv_app_nth)
  then have "QDrag (take (Suc n) ds) w = MoveSelectedActorsHorizontal (ds ! n) (QDrag (take n ds) w)"
    by (simp add: QDrag_snoc)
  moreover have "MoveGuards (QDrag (take n ds) w) sel S"
    by (rule QDrag_guards [OF assms(1)])
  note MoveH_multiple [OF this assms(2,3,4), of "ds ! n"]
  ultimately show ?thesis by simp
qed

lemma EDrag_frame:
  assumes "MoveGuards w sel S" and "0 < S" and "distinct (ActorsOf sel)"
    and "a \<in> set (ActorsOf sel)" and "n < length ys"
  shows "IsGridMultiple S (ActorLocation (Actors (EDrag (take (Suc n) ys) w) a)
           - ActorLocation (Actors (EDrag (take n ys) w) a))"
proof -
  from assms(5) have "take (Suc n) ys = take n ys @ [ys ! n]"
    by (rule take_Suc_conv_app_nth)
  then have "EDrag (take (Suc n) ys) w = MoveSelectedActorsVertical (ys ! n) (EDrag (take n ys) w)"
    by (simp add: EDrag_snoc)
  moreover have "MoveGuards (EDrag (take n ys) w) sel S"
    by (rule EDrag_guards [OF assms(1)])
  note MoveV_multiple [OF this assms(2,3,4), of "ys ! n"]
  ultimately show ?thesis by simp
qed

text \<open>
  What holds of the snapping in exact arithmetic, for an actor of a selection without
  repetitions in a Q-drag or an E-drag whose frames are processed with grid snapping on
  at grid size \<open>S\<close>. For every \<open>S\<close> above zero, each frame moves the actor by a
  whole multiple of \<open>S\<close> on each axis.
\<close>

lemma grid_snap_frames_are_multiples:
  assumes "MoveGuards w sel S" and "0 < S"
    and "distinct (ActorsOf sel)" and "a \<in> set (ActorsOf sel)"
  shows "(\<forall>n < length ds. IsGridMultiple S
             (ActorLocation (Actors (QDrag (take (Suc n) ds) w) a)
                - ActorLocation (Actors (QDrag (take n ds) w) a)))
    \<and> (\<forall>n < length ys. IsGridMultiple S
             (ActorLocation (Actors (EDrag (take (Suc n) ys) w) a)
                - ActorLocation (Actors (EDrag (take n ys) w) a)))"
  using QDrag_frame [OF assms] EDrag_frame [OF assms] by blast

text \<open>
  For every \<open>S\<close> above the tolerance \<open>KINDA_SMALL_NUMBER\<close> = 0.0001, at any point
  of the drag the actor's location plus the residual in \<open>AccumulatedMovement\<close> is the
  location and residual at the start plus all world movement accumulated since.
\<close>

lemma grid_snap_conserves_above_tolerance:
  assumes "MoveGuards w sel S" and "KINDA_SMALL_NUMBER < S"
    and "distinct (ActorsOf sel)" and "a \<in> set (ActorsOf sel)"
  shows "ActorLocation (Actors (QDrag ds w) a) + AccumulatedMovement (QDrag ds w)
        = ActorLocation (Actors w a) + AccumulatedMovement w + QDragInput ds w
    \<and> ActorLocation (Actors (EDrag ys w) a) + AccumulatedMovement (EDrag ys w)
        = ActorLocation (Actors w a) + AccumulatedMovement w + EDragInput ys w"
  using QDrag_conserves [OF assms(2,3,4,1)] EDrag_conserves [OF assms(2,3,4,1)] by blast

lemma grid_snap_example:
  "ActorLocation (Actors (QDrag [FVector2D 12 0, FVector2D 4 0] demo_shortcuts) 0) = FVector 10 0 100
   \<and> AccumulatedMovement (QDrag [FVector2D 12 0, FVector2D 4 0] demo_shortcuts) = FVector 6 0 0
   \<and> QDragInput [FVector2D 12 0, FVector2D 4 0] demo_shortcuts = FVector 16 0 0
   \<and> ActorLocation (Actors (EDrag [- 27] demo_shortcuts) 0) = FVector 0 0 130
   \<and> AccumulatedMovement (EDrag [- 27] demo_shortcuts) = FVector 0 0 (- 3)"
  using grid_snap_conserves_above_tolerance [of demo_shortcuts "[ActorObject 0]" 10 0
      "[FVector2D 12 0, FVector2D 4 0]" "[- 27]"]
  by (simp add: demo_eval)

lemma fine_grid_frame:
  "MoveSelectedActorsHorizontal (FVector2D 1 0)
     (MoveSelectedActorsHorizontal (FVector2D 1 0) demo_fine_grid)
   = MoveSelectedActorsHorizontal (FVector2D 1 0) demo_fine_grid"
  "WorldDeltaH (MoveSelectedActorsHorizontal (FVector2D 1 0) demo_fine_grid) (FVector2D 1 0)
   = FVector (1 / 20000) 0 0"
  "WorldDeltaH demo_fine_grid (FVector2D 1 0) = FVector (1 / 20000) 0 0"
  "ActorLocation (Actors (MoveSelectedActorsHorizontal (FVector2D 1 0) demo_fine_grid) 0)
   = ActorLocation (Actors demo_fine_grid 0)"
  "AccumulatedMovement (MoveSelectedActorsHorizontal (FVector2D 1 0) demo_fine_grid)
   = FVector 0 0 0"
  by (simp_all add: demo_fine_grid_def demo_eval)

lemma fine_grid_frames:
  "QDrag (replicate n (FVector2D 1 0))
     (MoveSelectedActorsHorizontal (FVector2D 1 0) demo_fine_grid)
   = MoveSelectedActorsHorizontal (FVector2D 1 0) demo_fine_grid"
  "QDragInput (replicate n (FVector2D 1 0))
     (MoveSelectedActorsHorizontal (FVector2D 1 0) demo_fine_grid)
   = FVector (real n / 20000) 0 0"
  by (induction n)
     (simp_all add: fine_grid_frame plus_FVector_def zero_FVector_def add_divide_distrib)

text \<open>
  With a grid size within the tolerance of \<open>IsNearlyZero\<close> the movement that
  is lost grows with the drag: in the example editor with grid size 0.00005, however
  many frames of one pixel (0.00005 world unit) there are, the actor stays where it
  was and the residual stays zero.
\<close>

lemma grid_snap_loss_unbounded:
  "QDragInput (replicate n (FVector2D 1 0)) demo_fine_grid = FVector (real n / 20000) 0 0
   \<and> ActorLocation (Actors (QDrag (replicate n (FVector2D 1 0)) demo_fine_grid) 0)
       = ActorLocation (Actors demo_fine_grid 0)
   \<and> AccumulatedMovement (QDrag (replicate n (FVector2D 1 0)) demo_fine_grid) = FVector 0 0 0"
proof (cases n)
  case 0
  then show ?thesis by (simp add: zero_FVector_def demo_fine_grid_def demo_shortcuts_def)
next
  case (Suc m)
  then show ?thesis
    by (simp add: fine_grid_frames fine_grid_frame plus_FVector_def add_divide_distrib)
qed

text \<open>
  Claim C1, at the input on which the code departs from it. The claim holds of every
  grid size above zero that the total movement applied plus the residual is the total
  accumulated input. With grid size 0.00005, within the tolerance of
  \<open>IsNearlyZero\<close>, a frame that has accumulated one grid step takes the step off
  \<open>AccumulatedMovement\<close> and then returns early, because the snapped delta counts as
  nearly zero: the step is neither applied nor kept. Over three such frames 0.00015 of
  movement has been accumulated, the actor has not moved and the residual is zero.
\<close>

theorem grid_snap_loses_movement:
  "GetGridSnapSize demo_fine_grid = 1 / 20000
   \<and> MoveGuards demo_fine_grid [ActorObject 0] (1 / 20000)
   \<and> AccumulatedMovement demo_fine_grid = FVector 0 0 0
   \<and> QDragInput [FVector2D 1 0, FVector2D 1 0, FVector2D 1 0] demo_fine_grid
       = FVector (3 / 20000) 0 0
   \<and> ActorLocation (Actors (QDrag [FVector2D 1 0, FVector2D 1 0, FVector2D 1 0] demo_fine_grid) 0)
       = ActorLocation (Actors demo_fine_grid 0)
   \<and> AccumulatedMovement (QDrag [FVector2D 1 0, FVector2D 1 0, FVector2D 1 0] demo_fine_grid)
       = FVector 0 0 0"
  by (simp add: demo_fine_grid_def demo_eval)

section \<open>Frames of a drag\<close>

lemma AccumulateAndMove_drag_fields [simp]:
  "PlaySessionInProgress (AccumulateAndMove d sel w) = PlaySessionInProgress w"
  "Transactions (AccumulateAndMove d sel w) = Transactions w"
  "OpenTransactions (AccumulateAndMove d sel w) = OpenTransactions w"
  "DragTransaction (AccumulateAndMove d sel w) = DragTransaction w"
  "bDragInitialized (AccumulateAndMove d sel w) = bDragInitialized w"
  "TotalScaleDelta (AccumulateAndMove d sel w) = TotalScaleDelta w"
  by (simp_all add: AccumulateAndMove_def Let_def)

lemma Tick_unfold:
  "FLevelEditorShortcutsProcessor_Tick w =
     (if GEditor w \<and> PlaySessionInProgress w then w\<lparr>CachedCursor := True\<rparr>
      else if \<not> (bQKeyDown w \<or> bEKeyDown w \<or> bRKeyDown w) then w\<lparr>CachedCursor := True\<rparr>
      else if IsNearlyZero2D (CursorPos w - LastMousePosition w) then TrackCursor w
      else if bQKeyDown w
      then MoveSelectedActorsHorizontal (CursorPos w - LastMousePosition w) (TrackCursor w)
      else if bEKeyDown w
      then MoveSelectedActorsVertical (Y2 (CursorPos w - LastMousePosition w)) (TrackCursor w)
      else ScaleSelectedActorsUniform (CursorPos w - LastMousePosition w) (TrackCursor w))"
  by (simp add: FLevelEditorShortcutsProcessor_Tick_def TrackCursor_def Let_def)

lemmas session_eval = demo_eval FLevelEditorShortcutsProcessor_HandleKeyDownEvent_def
  FLevelEditorShortcutsProcessor_HandleKeyUpEvent_def FLevelEditorShortcutsProcessor_Tick_def
  KeyEvent_def NoModifiers_def IsLevelEditorViewportFocused_def SetCursorHidden_def
  EndDragTransaction_def FScopedTransaction_end_def MoveMouse_def IsNearlyZero2D_def
  plus_FVector2D_def minus_FVector2D_def

section \<open>Uniform scale from the snapshot\<close>

lemma InitialScales_holds:
  "a \<in> set (ActorsOf sel) \<Longrightarrow> SnapshotHolds (InitialScales sel actors) a (ActorScale3D (actors a))"
proof (induction sel)
  case Nil
  then show ?case by simp
next
  case (Cons obj sel)
  have sub: "\<forall>p \<in> set (InitialScales sel actors). snd p = ActorScale3D (actors (fst p))" for sel
    by (induction sel) (auto split: option.splits)
  have keys: "fst ` set (InitialScales sel actors) = set (ActorsOf sel)" for sel
    by (induction sel) (auto split: option.splits)
  from Cons.prems show ?case
    unfolding SnapshotHolds_def keys using sub [of "obj # sel"] by blast
qed

lemma ApplyScaleMultiplier_other:
  "a \<notin> fst ` set ps \<Longrightarrow> ApplyScaleMultiplier m stale ps actors a = actors a"
  by (induction ps arbitrary: actors) auto

lemma ApplyScaleMultiplier_keeps:
  "ActorLocation (ApplyScaleMultiplier m stale ps actors a) = ActorLocation (actors a)
   \<and> ActorRotation (ApplyScaleMultiplier m stale ps actors a) = ActorRotation (actors a)
   \<and> FolderPath (ApplyScaleMultiplier m stale ps actors a) = FolderPath (actors a)"
  by (induction ps arbitrary: actors) (auto simp: Let_def)

lemma ApplyScaleMultiplier_scale:
  "SnapshotHolds ps a s \<Longrightarrow> a \<notin> stale \<Longrightarrow>
     ActorScale3D (ApplyScaleMultiplier m stale ps actors a)
       = ComponentMax (scaleV s m)
           (FVector (Float32 (1 / 1000)) (Float32 (1 / 1000)) (Float32 (1 / 1000)))"
proof (induction ps arbitrary: actors)
  case Nil
  then show ?case by (simp add: SnapshotHolds_def)
next
  case (Cons p ps)
  obtain k v where p: "p = (k, v)" by (cases p)
  show ?case
  proof (cases "a \<in> fst ` set ps")
    case True
    with Cons.prems(1) have "SnapshotHolds ps a s" by (auto simp: SnapshotHolds_def)
    from Cons.IH [OF this Cons.prems(2)] show ?thesis by (simp add: p Let_def)
  next
    case False
    with Cons.prems(1) have "k = a" "v = s" by (auto simp: SnapshotHolds_def p)
    with False Cons.prems(2) show ?thesis
      by (simp add: p Let_def ApplyScaleMultiplier_other)
  qed
qed

lemma ScaleMultiplierOf_cong:
  "ViewportSettings w' = ViewportSettings w \<Longrightarrow> ScaleGridSize w' = ScaleGridSize w \<Longrightarrow>
     ScaleMultiplierOf w' t = ScaleMultiplierOf w t"
  by (simp add: ScaleMultiplierOf_def Let_def)

lemma ScaleSelectedActorsUniform_frame:
  assumes "GEditor w" and "SelectedActors w = Some sel" and "sel \<noteq> []"
  shows "bDragInitialized (ScaleSelectedActorsUniform d w)"
    and "ScaleDragInitialScales (ScaleSelectedActorsUniform d w) = SnapshotInForce w"
    and "SnapshotInForce (ScaleSelectedActorsUniform d w) = SnapshotInForce w"
    and "TotalScaleDelta (ScaleSelectedActorsUniform d w)
           = AccumulatedScaleDelta (TotalScaleDelta w) [d]"
    and "Actors (ScaleSelectedActorsUniform d w)
           = ApplyScaleMultiplier
               (ScaleMultiplierOf w (AccumulatedScaleDelta (TotalScaleDelta w) [d]))
               (Destroyed w) (SnapshotInForce w) (Actors w)"
    and "GEditor (ScaleSelectedActorsUniform d w)"
    and "SelectedActors (ScaleSelectedActorsUniform d w) = Some sel"
    and "Destroyed (ScaleSelectedActorsUniform d w) = Destroyed w"
    and "ViewportSettings (ScaleSelectedActorsUniform d w) = ViewportSettings w"
    and "ScaleGridSize (ScaleSelectedActorsUniform d w) = ScaleGridSize w"
proof -
  define w1 where "w1 = (if \<not> bDragInitialized w
      then (EnsureDragTransaction ''Scale Uniform'' (w\<lparr>bDragInitialized := True\<rparr>))
             \<lparr>ScaleDragInitialScales := InitialScales sel (Actors w)\<rparr>
      else w)"
  define T where "T = AccumulatedScaleDelta (TotalScaleDelta w) [d]"
  have w1: "bDragInitialized w1" "ScaleDragInitialScales w1 = SnapshotInForce w"
    "TotalScaleDelta w1 = TotalScaleDelta w" "Actors w1 = Actors w" "GEditor w1"
    "SelectedActors w1 = Some sel" "Destroyed w1 = Destroyed w"
    "ViewportSettings w1 = ViewportSettings w" "ScaleGridSize w1 = ScaleGridSize w"
    using assms
    by (simp_all add: w1_def SnapshotInForce_def EnsureDragTransaction_def FScopedTransaction_def)
  have eq: "ScaleSelectedActorsUniform d w
      = w1\<lparr>TotalScaleDelta := T,
            Actors := ApplyScaleMultiplier (ScaleMultiplierOf w1 T) (Destroyed w1)
                        (ScaleDragInitialScales w1) (Actors w1)\<rparr>"
    using assms
    by (simp add: ScaleSelectedActorsUniform_def Let_def w1_def T_def EnsureDragTransaction_def
        FScopedTransaction_def)
  have m: "ScaleMultiplierOf w1 T = ScaleMultiplierOf w T"
    by (rule ScaleMultiplierOf_cong) (simp_all add: w1)
  show "bDragInitialized (ScaleSelectedActorsUniform d w)"
    and "ScaleDragInitialScales (ScaleSelectedActorsUniform d w) = SnapshotInForce w"
    and "TotalScaleDelta (ScaleSelectedActorsUniform d w)
           = AccumulatedScaleDelta (TotalScaleDelta w) [d]"
    and "Actors (ScaleSelectedActorsUniform d w)
           = ApplyScaleMultiplier
               (ScaleMultiplierOf w (AccumulatedScaleDelta (TotalScaleDelta w) [d]))
               (Destroyed w) (SnapshotInForce w) (Actors w)"
    and "GEditor (ScaleSelectedActorsUniform d w)"
    and "SelectedActors (ScaleSelectedActorsUniform d w) = Some sel"
    and "Destroyed (ScaleSelectedActorsUniform d w) = Destroyed w"
    and "ViewportSettings (ScaleSelectedActorsUniform d w) = ViewportSettings w"
    and "ScaleGridSize (ScaleSelectedActorsUniform d w) = ScaleGridSize w"
    unfolding eq using w1 m by (simp_all add: T_def)
  then show "SnapshotInForce (ScaleSelectedActorsUniform d w) = SnapshotInForce w"
    by (simp add: SnapshotInForce_def [of "ScaleSelectedActorsUniform d w"])
qed

lemma AccumulatedScaleDelta_Cons:
  "AccumulatedScaleDelta t (d # ds) = AccumulatedScaleDelta (AccumulatedScaleDelta t [d]) ds"
  by simp

lemma RDrag_total:
  "GEditor w \<Longrightarrow> SelectedActors w = Some sel \<Longrightarrow> sel \<noteq> [] \<Longrightarrow>
     TotalScaleDelta (RDrag ds w) = AccumulatedScaleDelta (TotalScaleDelta w) ds"
proof (induction ds arbitrary: w)
  case Nil
  then show ?case by simp
next
  case (Cons d ds)
  note f = ScaleSelectedActorsUniform_frame [OF Cons.prems, of d]
  from Cons.IH [OF f(6) f(7) Cons.prems(3)] show ?case
    by (simp only: RDrag.simps f(4) AccumulatedScaleDelta_Cons [of _ d ds])
qed

lemma RDrag_scale:
  assumes "a \<notin> stale"
  shows "GEditor w \<Longrightarrow> SelectedActors w = Some sel \<Longrightarrow> sel \<noteq> [] \<Longrightarrow> Destroyed w = stale \<Longrightarrow>
     SnapshotHolds (SnapshotInForce w) a s \<Longrightarrow> ds \<noteq> [] \<Longrightarrow>
     ActorScale3D (Actors (RDrag ds w) a)
       = ComponentMax
           (scaleV s (ScaleMultiplierOf w (AccumulatedScaleDelta (TotalScaleDelta w) ds)))
           (FVector (Float32 (1 / 1000)) (Float32 (1 / 1000)) (Float32 (1 / 1000)))"
proof (induction ds arbitrary: w)
  case Nil
  then show ?case by simp
next
  case (Cons d ds)
  note f = ScaleSelectedActorsUniform_frame [OF Cons.prems(1,2,3), of d]
  show ?case
  proof (cases "ds = []")
    case True
    then show ?thesis
      using Cons.prems(4,5) assms
      by (simp add: f(5) ApplyScaleMultiplier_scale del: AccumulatedScaleDelta.simps)
  next
    case False
    have "ActorScale3D (Actors (RDrag ds (ScaleSelectedActorsUniform d w)) a)
       = ComponentMax
           (scaleV s (ScaleMultiplierOf (ScaleSelectedActorsUniform d w)
              (AccumulatedScaleDelta (TotalScaleDelta (ScaleSelectedActorsUniform d w)) ds)))
           (FVector (Float32 (1 / 1000)) (Float32 (1 / 1000)) (Float32 (1 / 1000)))"
      using Cons.prems(3,4,5) False
      by (intro Cons.IH) (simp_all add: f del: AccumulatedScaleDelta.simps)
    then show ?thesis
      by (simp only: ScaleMultiplierOf_cong [OF f(9) f(10)] RDrag.simps f(4)
          AccumulatedScaleDelta_Cons [of _ d ds])
  qed
qed

lemmas float_eval = Float32_def RoundHalfEven_def numeral_eq_Suc Let_def

lemma Float32_one: "Float32 1 = 1"
  by (simp add: float_eval)

lemma Float32_hundredth: "Float32 (1 / 100) \<le> 1"
  by (simp add: float_eval)

lemma ScaleMultiplierOf_zero: "ScaleSnapOff w \<Longrightarrow> ScaleMultiplierOf w 0 = 1"
  using Float32_hundredth
  by (auto simp: ScaleSnapOff_def ScaleMultiplierOf_def Let_def Float32_one max_def)

lemma ComponentMax_identity:
  "c \<le> X v \<Longrightarrow> c \<le> Y v \<Longrightarrow> c \<le> Z v \<Longrightarrow> ComponentMax (scaleV v 1) (FVector c c c) = v"
  by (cases v) (simp add: ComponentMax_def scaleV_def max_def)

text \<open>
  Claim C2, as the code has it. Take an R-drag of frames processed one after the
  other, starting on a state with no drag in progress, and an actor that is selected
  and not destroyed. After every frame the accumulated scale delta is the
  single-precision sum of the frames' \<open>(deltaX - deltaY) * 0.004f\<close>, and the
  actor's scale is the scale it had before the drag times the multiplier of that sum,
  each component raised to at least \<open>0.001f\<close>: it depends on the pre-drag scale and
  on the accumulated delta only, never on the scale of the frame before. Hence, with
  scale snapping off, whenever the accumulated single-precision delta is zero an actor
  whose pre-drag scale has no component below \<open>0.001f\<close> is exactly at its pre-drag
  scale.
\<close>

theorem scale_drag_from_snapshot:
  assumes "GEditor w" and "SelectedActors w = Some sel" and "a \<in> set (ActorsOf sel)"
    and "a \<notin> Destroyed w" and "\<not> bDragInitialized w" and "TotalScaleDelta w = 0"
    and "ds \<noteq> []"
  shows "TotalScaleDelta (RDrag ds w) = AccumulatedScaleDelta 0 ds
    \<and> ActorScale3D (Actors (RDrag ds w) a)
      = ComponentMax
          (scaleV (ActorScale3D (Actors w a)) (ScaleMultiplierOf w (AccumulatedScaleDelta 0 ds)))
          (FVector (Float32 (1 / 1000)) (Float32 (1 / 1000)) (Float32 (1 / 1000)))
    \<and> (ScaleSnapOff w \<and> AccumulatedScaleDelta 0 ds = 0
        \<and> Float32 (1 / 1000) \<le> X (ActorScale3D (Actors w a))
        \<and> Float32 (1 / 1000) \<le> Y (ActorScale3D (Actors w a))
        \<and> Float32 (1 / 1000) \<le> Z (ActorScale3D (Actors w a))
       \<longrightarrow> ActorScale3D (Actors (RDrag ds w) a) = ActorScale3D (Actors w a))"
proof -
  from assms(3) have sel: "sel \<noteq> []" by auto
  from assms(2,5) have "SnapshotInForce w = InitialScales sel (Actors w)"
    by (simp add: SnapshotInForce_def)
  with InitialScales_holds [OF assms(3)]
  have "SnapshotHolds (SnapshotInForce w) a (ActorScale3D (Actors w a))" by simp
  from RDrag_scale [OF assms(4) assms(1,2) sel refl this assms(7)]
  have main: "ActorScale3D (Actors (RDrag ds w) a)
      = ComponentMax
          (scaleV (ActorScale3D (Actors w a)) (ScaleMultiplierOf w (AccumulatedScaleDelta 0 ds)))
          (FVector (Float32 (1 / 1000)) (Float32 (1 / 1000)) (Float32 (1 / 1000)))"
    by (simp only: assms(6))
  from RDrag_total [OF assms(1,2) sel, of ds]
  have total: "TotalScaleDelta (RDrag ds w) = AccumulatedScaleDelta 0 ds"
    by (simp only: assms(6))
  have "ActorScale3D (Actors (RDrag ds w) a) = ActorScale3D (Actors w a)"
    if "ScaleSnapOff w" and "AccumulatedScaleDelta 0 ds = 0"
      and "Float32 (1 / 1000) \<le> X (ActorScale3D (Actors w a))"
      and "Float32 (1 / 1000) \<le> Y (ActorScale3D (Actors w a))"
      and "Float32 (1 / 1000) \<le> Z (ActorScale3D (Actors w a))"
    unfolding main that(2) ScaleMultiplierOf_zero [OF that(1)]
    by (rule ComponentMax_identity [OF that(3,4,5)])
  with main total show ?thesis by blast
qed

theorem scale_drag_from_snapshot_witness:
  "ActorScale3D (Actors (RDrag [FVector2D 125 0] demo_shortcuts) 0) = FVector 3 3 3
   \<and> TotalScaleDelta (RDrag [FVector2D 125 0] demo_shortcuts) = 1 / 2
   \<and> AccumulatedScaleDelta 0 [FVector2D 125 0, FVector2D 0 125] = 0
   \<and> ActorScale3D (Actors (RDrag [FVector2D 125 0, FVector2D 0 125] demo_shortcuts) 0)
       = FVector 2 2 2"
  using scale_drag_from_snapshot [of demo_shortcuts "[ActorObject 0]" 0 "[FVector2D 125 0]"]
    scale_drag_from_snapshot [of demo_shortcuts "[ActorObject 0]" 0
      "[FVector2D 125 0, FVector2D 0 125]"]
  by (simp add: demo_shortcuts_def demo_settings_def demo_actor_def ScaleMultiplierOf_def
      scaleV_def ComponentMax_def ScaleSnapOff_def float_eval)

text \<open>
  Claim C2 as stated fails in three ways. (1) An actor with a scale component below
  \<open>0.001f\<close>, such as a mirrored actor, has the component raised to \<open>0.001f\<close> on
  every frame, also when the sum is back at zero. (2) The scale delta is accumulated
  in single precision: the deltas 50, 125 and -175 sum to zero, yet the accumulated
  delta is -1/2^24 and the actor of scale 2 is left at scale 2 - 1/2^23. (3) A
  tap of Q while R is held ends the drag transaction and clears the snapshot, which
  the next frame takes again from the scale of that moment: after the deltas 125 and
  -125 the actor of scale 2 is left at scale 3/2.
\<close>

theorem scale_drag_counterexample:
  "RadialSum [FVector2D 250 0, FVector2D (- 250) 0] = 0
   \<and> ScaleSnapOff demo_mirrored
   \<and> ActorScale3D (Actors demo_mirrored 0) = FVector (- 1) 1 1
   \<and> ActorScale3D (Actors (RDrag [FVector2D 250 0, FVector2D (- 250) 0] demo_mirrored) 0)
       = FVector (8589935 / 2 ^ 33) 1 1
   \<and> RadialSum [FVector2D 50 0, FVector2D 125 0, FVector2D (- 175) 0] = 0
   \<and> ScaleSnapOff demo_shortcuts
   \<and> ActorScale3D (Actors demo_shortcuts 0) = FVector 2 2 2
   \<and> TotalScaleDelta (RDrag [FVector2D 50 0, FVector2D 125 0, FVector2D (- 175) 0] demo_shortcuts)
       = - (1 / 2 ^ 24)
   \<and> ActorScale3D (Actors
         (RDrag [FVector2D 50 0, FVector2D 125 0, FVector2D (- 175) 0] demo_shortcuts) 0)
       = FVector (2 - 1 / 2 ^ 23) (2 - 1 / 2 ^ 23) (2 - 1 / 2 ^ 23)
   \<and> RadialSum [FVector2D 125 0, FVector2D (- 125) 0] = 0
   \<and> ActorScale3D (Actors
         (Frames [FVector2D (- 125) 0]
            (snd (FLevelEditorShortcutsProcessor_HandleKeyUpEvent (KeyEvent EKeys_Q False False)
               (snd (FLevelEditorShortcutsProcessor_HandleKeyDownEvent
                  (KeyEvent EKeys_Q False False)
                  (Frames [FVector2D 125 0]
                     (snd (FLevelEditorShortcutsProcessor_HandleKeyDownEvent
                        (KeyEvent EKeys_R False False) demo_shortcuts)))))))) 0)
       = FVector (3 / 2) (3 / 2) (3 / 2)"
proof -
  have mirrored: "ActorScale3D (Actors
        (RDrag [FVector2D 250 0, FVector2D (- 250) 0] demo_mirrored) 0)
      = ComponentMax (scaleV (FVector (- 1) 1 1)
          (ScaleMultiplierOf demo_mirrored
             (AccumulatedScaleDelta (TotalScaleDelta demo_mirrored)
                [FVector2D 250 0, FVector2D (- 250) 0])))
          (FVector (Float32 (1 / 1000)) (Float32 (1 / 1000)) (Float32 (1 / 1000)))"
    by (rule RDrag_scale [of 0 "{}" _ "[ActorObject 0]"])
       (simp_all add: demo_mirrored_def demo_shortcuts_def SnapshotInForce_def SnapshotHolds_def)
  have "ActorScale3D (Actors (RDrag [FVector2D 250 0, FVector2D (- 250) 0] demo_mirrored) 0)
      = FVector (8589935 / 2 ^ 33) 1 1"
    unfolding mirrored
    apply (simp add: demo_mirrored_def demo_shortcuts_def demo_settings_def
        ScaleMultiplierOf_def scaleV_def ComponentMax_def)
    apply (simp add: float_eval)
    done
  moreover have rounded: "ActorScale3D (Actors
        (RDrag [FVector2D 50 0, FVector2D 125 0, FVector2D (- 175) 0] demo_shortcuts) 0)
      = ComponentMax (scaleV (FVector 2 2 2)
          (ScaleMultiplierOf demo_shortcuts
             (AccumulatedScaleDelta (TotalScaleDelta demo_shortcuts)
                [FVector2D 50 0, FVector2D 125 0, FVector2D (- 175) 0])))
          (FVector (Float32 (1 / 1000)) (Float32 (1 / 1000)) (Float32 (1 / 1000)))"
    by (rule RDrag_scale [of 0 "{}" _ "[ActorObject 0]"])
       (simp_all add: demo_shortcuts_def demo_actor_def SnapshotInForce_def SnapshotHolds_def)
  have "ActorScale3D (Actors
        (RDrag [FVector2D 50 0, FVector2D 125 0, FVector2D (- 175) 0] demo_shortcuts) 0)
      = FVector (2 - 1 / 2 ^ 23) (2 - 1 / 2 ^ 23) (2 - 1 / 2 ^ 23)"
    unfolding rounded
    apply (simp add: demo_shortcuts_def demo_settings_def
        ScaleMultiplierOf_def scaleV_def ComponentMax_def)
    apply (simp add: float_eval)
    done
  moreover have "TotalScaleDelta
        (RDrag [FVector2D 50 0, FVector2D 125 0, FVector2D (- 175) 0] demo_shortcuts)
      = AccumulatedScaleDelta (TotalScaleDelta demo_shortcuts)
          [FVector2D 50 0, FVector2D 125 0, FVector2D (- 175) 0]"
    by (rule RDrag_total [of _ "[ActorObject 0]"]) (simp_all add: demo_shortcuts_def)
  then have "TotalScaleDelta
        (RDrag [FVector2D 50 0, FVector2D 125 0, FVector2D (- 175) 0] demo_shortcuts)
      = - (1 / 2 ^ 24)"
    apply (simp add: demo_shortcuts_def)
    apply (simp add: float_eval)
    done
  moreover have "ActorScale3D (Actors
         (Frames [FVector2D (- 125) 0]
            (snd (FLevelEditorShortcutsProcessor_HandleKeyUpEvent (KeyEvent EKeys_Q False False)
               (snd (FLevelEditorShortcutsProcessor_HandleKeyDownEvent
                  (KeyEvent EKeys_Q False False)
                  (Frames [FVector2D 125 0]
                     (snd (FLevelEditorShortcutsProcessor_HandleKeyDownEvent
                        (KeyEvent EKeys_R False False) demo_shortcuts)))))))) 0)
       = FVector (3 / 2) (3 / 2) (3 / 2)"
    apply (simp add: session_eval ScaleSelectedActorsUniform_def ScaleMultiplierOf_def
        scaleV_def ComponentMax_def)
    apply (simp add: float_eval)
    done
  moreover have "RadialSum [FVector2D 250 0, FVector2D (- 250) 0] = 0"
    "RadialSum [FVector2D 50 0, FVector2D 125 0, FVector2D (- 175) 0] = 0"
    "RadialSum [FVector2D 125 0, FVector2D (- 125) 0] = 0"
    "ScaleSnapOff demo_mirrored" "ScaleSnapOff demo_shortcuts"
    "ActorScale3D (Actors demo_mirrored 0) = FVector (- 1) 1 1"
    "ActorScale3D (Actors demo_shortcuts 0) = FVector 2 2 2"
    by (simp_all add: RadialSum_def ScaleSnapOff_def demo_mirrored_def demo_shortcuts_def
        demo_settings_def demo_actor_def)
  ultimately show ?thesis by (simp only: simp_thms)
qed

section \<open>One transaction per drag\<close>














section \<open>Priority of the drag keys\<close>

lemma AccumulateAndMove_scale:
  "ActorScale3D (Actors (AccumulateAndMove d sel w) a) = ActorScale3D (Actors w a)"
  by (simp add: AccumulateAndMove_def Let_def AddActorLocation_keeps)

lemma BeginDrag_TotalScaleDelta: "TotalScaleDelta (BeginDrag s w) = TotalScaleDelta w"
  by (simp add: BeginDrag_def EnsureDragTransaction_def FScopedTransaction_def)

lemma MoveSelectedActorsHorizontal_keeps_scale:
  "TotalScaleDelta (MoveSelectedActorsHorizontal d w) = TotalScaleDelta w
   \<and> ActorScale3D (Actors (MoveSelectedActorsHorizontal d w) a) = ActorScale3D (Actors w a)"
proof (cases "GEditor w \<and> (\<exists>sel. SelectedActors w = Some sel \<and> sel \<noteq> []) \<and> GetActiveViewportClient w")
  case True
  then obtain sel where "GEditor w" "SelectedActors w = Some sel" "sel \<noteq> []"
    "GetActiveViewportClient w" by blast
  from MoveSelectedActorsHorizontal_guarded [OF this] show ?thesis
    by (simp add: AccumulateAndMove_scale BeginDrag_TotalScaleDelta)
next
  case False
  then have "MoveSelectedActorsHorizontal d w = w"
    by (auto simp: MoveSelectedActorsHorizontal_def split: option.splits)
  then show ?thesis by simp
qed

lemma MoveSelectedActorsVertical_keeps_scale:
  "TotalScaleDelta (MoveSelectedActorsVertical y w) = TotalScaleDelta w
   \<and> ActorScale3D (Actors (MoveSelectedActorsVertical y w) a) = ActorScale3D (Actors w a)"
proof (cases "GEditor w \<and> (\<exists>sel. SelectedActors w = Some sel \<and> sel \<noteq> []) \<and> GetActiveViewportClient w")
  case True
  then obtain sel where "GEditor w" "SelectedActors w = Some sel" "sel \<noteq> []"
    "GetActiveViewportClient w" by blast
  from MoveSelectedActorsVertical_guarded [OF this] show ?thesis
    by (simp add: AccumulateAndMove_scale BeginDrag_TotalScaleDelta)
next
  case False
  then have "MoveSelectedActorsVertical y w = w"
    by (auto simp: MoveSelectedActorsVertical_def split: option.splits)
  then show ?thesis by simp
qed

lemma ScaleSelectedActorsUniform_keeps_location:
  "AccumulatedMovement (ScaleSelectedActorsUniform d w) = AccumulatedMovement w
   \<and> ActorLocation (Actors (ScaleSelectedActorsUniform d w) a) = ActorLocation (Actors w a)"
  by (simp add: ScaleSelectedActorsUniform_def Let_def EnsureDragTransaction_def
      FScopedTransaction_def ApplyScaleMultiplier_keeps split: option.splits)

text \<open>
  Claim C8. On a tick outside a Play session with a mouse movement that is not
  negligible, exactly one drag operation runs, chosen by the first key held in the
  order Q, E, R, whatever other drag keys are held too: with Q held the tick is the
  horizontal move, otherwise with E held the vertical move, otherwise with R held
  the uniform scale, and with none held nothing but the cursor cache. A tick that
  moves leaves every scale and the accumulated scale delta alone; a tick that scales
  leaves every location and the accumulated movement alone.
\<close>

theorem tick_priority:
  assumes "\<not> (GEditor w \<and> PlaySessionInProgress w)"
    and "\<not> IsNearlyZero2D (CursorPos w - LastMousePosition w)"
  shows "(bQKeyDown w \<longrightarrow>
            FLevelEditorShortcutsProcessor_Tick w
              = MoveSelectedActorsHorizontal (CursorPos w - LastMousePosition w) (TrackCursor w)
            \<and> TotalScaleDelta (FLevelEditorShortcutsProcessor_Tick w) = TotalScaleDelta w
            \<and> (\<forall>a. ActorScale3D (Actors (FLevelEditorShortcutsProcessor_Tick w) a)
                     = ActorScale3D (Actors w a)))
    \<and> (\<not> bQKeyDown w \<and> bEKeyDown w \<longrightarrow>
            FLevelEditorShortcutsProcessor_Tick w
              = MoveSelectedActorsVertical (Y2 (CursorPos w - LastMousePosition w)) (TrackCursor w)
            \<and> TotalScaleDelta (FLevelEditorShortcutsProcessor_Tick w) = TotalScaleDelta w
            \<and> (\<forall>a. ActorScale3D (Actors (FLevelEditorShortcutsProcessor_Tick w) a)
                     = ActorScale3D (Actors w a)))
    \<and> (\<not> bQKeyDown w \<and> \<not> bEKeyDown w \<and> bRKeyDown w \<longrightarrow>
            FLevelEditorShortcutsProcessor_Tick w
              = ScaleSelectedActorsUniform (CursorPos w - LastMousePosition w) (TrackCursor w)
            \<and> AccumulatedMovement (FLevelEditorShortcutsProcessor_Tick w) = AccumulatedMovement w
            \<and> (\<forall>a. ActorLocation (Actors (FLevelEditorShortcutsProcessor_Tick w) a)
                     = ActorLocation (Actors w a)))
    \<and> (\<not> bQKeyDown w \<and> \<not> bEKeyDown w \<and> \<not> bRKeyDown w \<longrightarrow>
            FLevelEditorShortcutsProcessor_Tick w = w\<lparr>CachedCursor := True\<rparr>)"
proof -
  have t: "TotalScaleDelta (TrackCursor w) = TotalScaleDelta w"
    "Actors (TrackCursor w) = Actors w"
    "AccumulatedMovement (TrackCursor w) = AccumulatedMovement w"
    by (simp_all add: TrackCursor_def)
  have "FLevelEditorShortcutsProcessor_Tick w =
     (if bQKeyDown w
      then MoveSelectedActorsHorizontal (CursorPos w - LastMousePosition w) (TrackCursor w)
      else if bEKeyDown w
      then MoveSelectedActorsVertical (Y2 (CursorPos w - LastMousePosition w)) (TrackCursor w)
      else if bRKeyDown w
      then ScaleSelectedActorsUniform (CursorPos w - LastMousePosition w) (TrackCursor w)
      else w\<lparr>CachedCursor := True\<rparr>)"
    using assms
    by (cases "GEditor w"; cases "PlaySessionInProgress w") (simp_all add: Tick_unfold)
  then show ?thesis
    by (simp add: MoveSelectedActorsHorizontal_keeps_scale
        MoveSelectedActorsVertical_keeps_scale ScaleSelectedActorsUniform_keeps_location t)
qed

theorem tick_priority_witness:
  "ActorLocation (Actors (FLevelEditorShortcutsProcessor_Tick
      (demo_shortcuts\<lparr>CursorPos := FVector2D 412 330, bQKeyDown := True, bEKeyDown := True,
                       bRKeyDown := True, LastMousePosition := FVector2D 400 300\<rparr>)) 0)
     = FVector 10 (- 30) 100
   \<and> ActorScale3D (Actors (FLevelEditorShortcutsProcessor_Tick
      (demo_shortcuts\<lparr>CursorPos := FVector2D 412 330, bQKeyDown := True, bEKeyDown := True,
                       bRKeyDown := True, LastMousePosition := FVector2D 400 300\<rparr>)) 0)
     = FVector 2 2 2
   \<and> Transactions (FLevelEditorShortcutsProcessor_Tick
      (demo_shortcuts\<lparr>CursorPos := FVector2D 412 330, bQKeyDown := True, bEKeyDown := True,
                       bRKeyDown := True, LastMousePosition := FVector2D 400 300\<rparr>))
     = [''Move Horizontal'']
   \<and> Transactions (FLevelEditorShortcutsProcessor_Tick
      (demo_shortcuts\<lparr>CursorPos := FVector2D 412 330, bEKeyDown := True, bRKeyDown := True,
                       LastMousePosition := FVector2D 400 300\<rparr>))
     = [''Move Vertical'']
   \<and> ActorLocation (Actors (FLevelEditorShortcutsProcessor_Tick
      (demo_shortcuts\<lparr>CursorPos := FVector2D 412 330, bEKeyDown := True, bRKeyDown := True,
                       LastMousePosition := FVector2D 400 300\<rparr>)) 0)
     = FVector 0 0 70
   \<and> Transactions (FLevelEditorShortcutsProcessor_Tick
      (demo_shortcuts\<lparr>CursorPos := FVector2D 412 330, bRKeyDown := True,
                       LastMousePosition := FVector2D 400 300\<rparr>))
     = [''Scale Uniform'']
   \<and> ActorLocation (Actors (FLevelEditorShortcutsProcessor_Tick
      (demo_shortcuts\<lparr>CursorPos := FVector2D 412 330, bRKeyDown := True,
                       LastMousePosition := FVector2D 400 300\<rparr>)) 0)
     = FVector 0 0 100
   \<and> FLevelEditorShortcutsProcessor_Tick
      (demo_shortcuts\<lparr>CursorPos := FVector2D 412 330, LastMousePosition := FVector2D 400 300\<rparr>)
     = demo_shortcuts\<lparr>CursorPos := FVector2D 412 330, LastMousePosition := FVector2D 400 300,
                      CachedCursor := True\<rparr>"
  using tick_priority [of
      "demo_shortcuts\<lparr>CursorPos := FVector2D 412 330, bQKeyDown := True, bEKeyDown := True,
                       bRKeyDown := True, LastMousePosition := FVector2D 400 300\<rparr>"]
    tick_priority [of
      "demo_shortcuts\<lparr>CursorPos := FVector2D 412 330, bEKeyDown := True, bRKeyDown := True,
                       LastMousePosition := FVector2D 400 300\<rparr>"]
    tick_priority [of
      "demo_shortcuts\<lparr>CursorPos := FVector2D 412 330, bRKeyDown := True,
                       LastMousePosition := FVector2D 400 300\<rparr>"]
    tick_priority [of
      "demo_shortcuts\<lparr>CursorPos := FVector2D 412 330, LastMousePosition := FVector2D 400 300\<rparr>"]
  by (simp add: session_eval TrackCursor_def ScaleSelectedActorsUniform_def
      ScaleMultiplierOf_def)

section \<open>Failing operations and the Play-session guard\<close>

lemma GroundTrace_no_hit:
  "trace ign = None \<Longrightarrow> fst (GroundTrace trace col n ign) = None"
  by (cases n) simp_all

lemma SnapActor_no_hit:
  "\<forall>actors start end ia ic. LineTraceSingleByChannel eng actors start end ia ic = None \<Longrightarrow>
     SnapActor eng rot a st = st"
  by (simp add: SnapActor_def Let_def GroundTrace_no_hit)

lemma SnapLoop_no_hit:
  "\<forall>actors start end ia ic. LineTraceSingleByChannel eng actors start end ia ic = None \<Longrightarrow>
     SnapLoop eng rot sel st = st"
proof (induction sel arbitrary: st)
  case Nil
  show ?case by simp
next
  case (Cons obj sel)
  then show ?case by (cases obj) (simp_all add: SnapActor_no_hit)
qed

lemma Snap_raycast_fails:
  assumes "RaycastFails c"
  shows "\<not> fst (SnapSelectedToGround c)" and "Actors (snd (SnapSelectedToGround c)) = Actors c"
    and "\<not> fst (SnapSelectedToGroundNoRotation c)"
    and "Actors (snd (SnapSelectedToGroundNoRotation c)) = Actors c"
proof -
  from assms have none: "\<forall>actors start end ia ic.
      LineTraceSingleByChannel (Engine (FScopedTransaction s c)) actors start end ia ic = None" for s
    by (simp add: RaycastFails_def FScopedTransaction_def)
  show "\<not> fst (SnapSelectedToGround c)" and "Actors (snd (SnapSelectedToGround c)) = Actors c"
    by (simp_all add: SnapSelectedToGround_def Let_def SnapLoop_no_hit [OF none]
        FScopedTransaction_end_def split: option.splits)
       (simp_all add: FScopedTransaction_def)
  show "\<not> fst (SnapSelectedToGroundNoRotation c)"
    and "Actors (snd (SnapSelectedToGroundNoRotation c)) = Actors c"
    by (simp_all add: SnapSelectedToGroundNoRotation_def Let_def SnapLoop_no_hit [OF none]
        FScopedTransaction_end_def split: option.splits)
       (simp_all add: FScopedTransaction_def)
qed

lemma NothingSelected_copypaste:
  assumes "NothingSelected c"
  shows "CopySelectedTransform c = c" and "PasteTransformToSelected c = (False, c)"
    and "SnapSelectedToGround c = (False, c)" and "SnapSelectedToGroundNoRotation c = (False, c)"
    and "DuplicateInPlace c = (False, c)"
  using assms
  by (auto simp: NothingSelected_def CopySelectedTransform_def PasteTransformToSelected_def
      SnapSelectedToGround_def SnapSelectedToGroundNoRotation_def DuplicateInPlace_def)

lemma NothingSelected_shortcuts:
  assumes "NothingSelected s"
  shows "MoveSelectedActorsHorizontal d s = s" and "MoveSelectedActorsVertical y s = s"
    and "ScaleSelectedActorsUniform d s = s" and "RotateSelectedActors x b s = s"
  using assms
  by (auto simp: NothingSelected_def MoveSelectedActorsHorizontal_def
      MoveSelectedActorsVertical_def ScaleSelectedActorsUniform_def RotateSelectedActors_def)

lemma no_viewport_shortcuts:
  assumes "\<not> GetActiveViewportClient s"
  shows "MoveSelectedActorsHorizontal d s = s" and "MoveSelectedActorsVertical y s = s"
  using assms
  by (auto simp: MoveSelectedActorsHorizontal_def MoveSelectedActorsVertical_def
      split: option.splits)

lemma play_session_guards:
  assumes "GEditor s" and "PlaySessionInProgress s"
  shows "FLevelEditorShortcutsProcessor_Tick s = s\<lparr>CachedCursor := True\<rparr>"
    and "FLevelEditorShortcutsProcessor_HandleKeyDownEvent ev s = (False, s)"
    and "FLevelEditorShortcutsProcessor_HandleKeyUpEvent ev s = (False, s)"
    and "FLevelEditorShortcutsProcessor_HandleMouseButtonDownEvent pe s = (False, s)"
    and "FLevelEditorShortcutsProcessor_HandleMouseWheelOrGestureEvent pe s = (False, s)"
  using assms
  by (simp_all add: Tick_unfold FLevelEditorShortcutsProcessor_HandleKeyDownEvent_def
      FLevelEditorShortcutsProcessor_HandleKeyUpEvent_def
      FLevelEditorShortcutsProcessor_HandleMouseButtonDownEvent_def
      FLevelEditorShortcutsProcessor_HandleMouseWheelOrGestureEvent_def)

lemma play_session_guard_copypaste:
  "GEditor c \<Longrightarrow> PlaySessionInProgress c \<Longrightarrow>
     FTransformCopyPasteProcessor_HandleKeyDownEvent ev c = (False, c)"
  by (simp add: FTransformCopyPasteProcessor_HandleKeyDownEvent_def)


text \<open>
  Claim C6, as the code has it. An operation on the selection that finds no editor
  singleton, no selection or an empty one returns with nothing changed, and so do the
  two moves without an active viewport; none of them opens a transaction. During a
  Play session the tick of the shortcut processor only caches the cursor, and the key
  and mouse handlers of the shortcut processor and the key-down handler of the
  copy/paste processor return false with nothing changed. When every trace of a ground
  snap fails, the snap changes no actor and returns false.
\<close>

theorem failing_operations_change_nothing:
  "(NothingSelected c \<longrightarrow>
      CopySelectedTransform c = c \<and> PasteTransformToSelected c = (False, c)
      \<and> SnapSelectedToGround c = (False, c) \<and> SnapSelectedToGroundNoRotation c = (False, c)
      \<and> DuplicateInPlace c = (False, c))
   \<and> (NothingSelected s \<longrightarrow>
      MoveSelectedActorsHorizontal d s = s \<and> MoveSelectedActorsVertical y s = s
      \<and> ScaleSelectedActorsUniform d s = s \<and> RotateSelectedActors y b s = s)
   \<and> (\<not> GetActiveViewportClient n \<longrightarrow>
      MoveSelectedActorsHorizontal d n = n \<and> MoveSelectedActorsVertical y n = n)
   \<and> (GEditor q \<and> PlaySessionInProgress q \<longrightarrow>
      FLevelEditorShortcutsProcessor_Tick q = q\<lparr>CachedCursor := True\<rparr>
      \<and> FLevelEditorShortcutsProcessor_HandleKeyDownEvent ev q = (False, q)
      \<and> FLevelEditorShortcutsProcessor_HandleKeyUpEvent ev q = (False, q)
      \<and> FLevelEditorShortcutsProcessor_HandleMouseButtonDownEvent pe q = (False, q)
      \<and> FLevelEditorShortcutsProcessor_HandleMouseWheelOrGestureEvent pe q = (False, q))
   \<and> (GEditor p \<and> PlaySessionInProgress p \<longrightarrow>
      FTransformCopyPasteProcessor_HandleKeyDownEvent ev p = (False, p))
   \<and> (RaycastFails v \<longrightarrow>
      \<not> fst (SnapSelectedToGround v) \<and> Actors (snd (SnapSelectedToGround v)) = Actors v
      \<and> \<not> fst (SnapSelectedToGroundNoRotation v)
      \<and> Actors (snd (SnapSelectedToGroundNoRotation v)) = Actors v)"
  using NothingSelected_copypaste [of c] NothingSelected_shortcuts [of s] no_viewport_shortcuts [of n]
    play_session_guards [of q] play_session_guard_copypaste [of p] Snap_raycast_fails [of v]
  by simp

theorem failing_operations_change_nothing_witness:
  "SnapSelectedToGround (demo_copypaste\<lparr>SelectedActors := Some []\<rparr>)
     = (False, demo_copypaste\<lparr>SelectedActors := Some []\<rparr>)
   \<and> ScaleSelectedActorsUniform (FVector2D 12 0) (demo_shortcuts\<lparr>GEditor := False\<rparr>)
     = demo_shortcuts\<lparr>GEditor := False\<rparr>
   \<and> MoveSelectedActorsHorizontal (FVector2D 12 0) (demo_shortcuts\<lparr>ActiveLevelViewport := None\<rparr>)
     = demo_shortcuts\<lparr>ActiveLevelViewport := None\<rparr>
   \<and> FLevelEditorShortcutsProcessor_HandleKeyDownEvent (KeyEvent EKeys_Q False False)
        (demo_shortcuts\<lparr>PlaySessionInProgress := True\<rparr>)
     = (False, demo_shortcuts\<lparr>PlaySessionInProgress := True\<rparr>)
   \<and> FTransformCopyPasteProcessor_HandleKeyDownEvent (KeyEvent EKeys_Q False False)
        (demo_copypaste\<lparr>PlaySessionInProgress := True\<rparr>)
     = (False, demo_copypaste\<lparr>PlaySessionInProgress := True\<rparr>)
   \<and> RaycastFails demo_void
   \<and> \<not> fst (SnapSelectedToGround demo_void)
   \<and> Actors (snd (SnapSelectedToGround demo_void)) = Actors demo_void"
  using failing_operations_change_nothing [of
      "demo_copypaste\<lparr>SelectedActors := Some []\<rparr>" "demo_shortcuts\<lparr>GEditor := False\<rparr>"
      "FVector2D 12 0" 0 False "demo_shortcuts\<lparr>ActiveLevelViewport := None\<rparr>"
      "demo_shortcuts\<lparr>PlaySessionInProgress := True\<rparr>" "KeyEvent EKeys_Q False False"
      "\<lparr>GetEffectingButton = EKeys_LeftMouseButton, PointerIsShiftDown = False, GetWheelDelta = 1\<rparr>"
      "demo_copypaste\<lparr>PlaySessionInProgress := True\<rparr>" demo_void]
  by (simp add: NothingSelected_def RaycastFails_def GetActiveViewportClient_def
      demo_copypaste_def demo_shortcuts_def demo_void_def)

text \<open>
  Claim C6 as stated fails for a failed raycast: the ground snap makes its transaction
  before it casts any ray, so on a snap whose every trace fails a transaction has been
  opened (and closed again), although no actor has changed.
\<close>

theorem failed_raycast_counterexample:
  "RaycastFails demo_void
   \<and> \<not> fst (SnapSelectedToGround demo_void)
   \<and> Transactions demo_void = []
   \<and> Transactions (snd (SnapSelectedToGround demo_void)) = [''Snap to Ground'']
   \<and> Transactions (snd (SnapSelectedToGroundNoRotation demo_void))
       = [''Snap to Ground (No Rotation)'']"
  by (simp add: RaycastFails_def demo_void_def demo_copypaste_def demo_engine_def
      SnapSelectedToGround_def SnapSelectedToGroundNoRotation_def SnapActor_def
      FScopedTransaction_def FScopedTransaction_end_def Let_def numeral_eq_Suc)

text \<open>
  Claim C9, at the input on which the code departs from it. The tick of the copy/paste
  processor has no Play-session guard: with a paste to folder pending it completes the
  paste during a Play session, which opens a transaction and moves the new actor into
  the folder.
\<close>

theorem tick_during_play_session:
  "GEditor demo_pending_in_play \<and> PlaySessionInProgress demo_pending_in_play
   \<and> bPasteToFolderPending demo_pending_in_play
   \<and> Transactions demo_pending_in_play = []
   \<and> FolderPath (Actors demo_pending_in_play 1) = NAME_None
   \<and> Transactions (FTransformCopyPasteProcessor_Tick demo_pending_in_play) = [''Paste to Folder'']
   \<and> FolderPath (Actors (FTransformCopyPasteProcessor_Tick demo_pending_in_play) 1) = ''Props''"
  by (simp add: demo_pending_in_play_def demo_copypaste_def demo_actor_def KeyEvent_def
      FTransformCopyPasteProcessor_HandleKeyDownEvent_def SetupPasteToFolder_def
      FTransformCopyPasteProcessor_Tick_def CompletePasteToFolder_def NAME_None_def
      FScopedTransaction_def FScopedTransaction_end_def Let_def)

end
